theory Spec2Isabelle
  imports Main "HOL-Library.AList"
begin

section \<open>JavaScript values\<close>

text \<open>
  The values that travel through the option objects of dropin-request: primitives, byte
  buffers (Node's Buffer), arrays, plain objects as association lists in property order,
  and cookie-jar instances (objects of the tough-cookie library, known by a handle).
  Numbers are integers; strings are byte strings.
\<close>

datatype jsval =
    JUndefined
  | JNull
  | JBool bool
  | JNum int
  | JStr string
  | JBytes "nat list"
  | JArr "jsval list"
  | JObj "(string \<times> jsval) list"
  | JJar nat

type_synonym obj = "(string \<times> jsval) list"

text \<open>Truthiness, as \<open>if (v)\<close>, \<open>!v\<close> and \<open>a || b\<close> see it.\<close>

fun truthy :: "jsval \<Rightarrow> bool" where
  "truthy JUndefined = False"
| "truthy JNull = False"
| "truthy (JBool b) = b"
| "truthy (JNum n) = (n \<noteq> 0)"
| "truthy (JStr s) = (s \<noteq> [])"
| "truthy (JBytes bs) = True"
| "truthy (JArr xs) = True"
| "truthy (JObj es) = True"
| "truthy (JJar h) = True"

text \<open>\<open>a || b\<close>\<close>

definition js_or :: "jsval \<Rightarrow> jsval \<Rightarrow> jsval" where
  "js_or a b = (if truthy a then a else b)"

text \<open>Reading a property of an object held as its entry list: \<open>o.k\<close>, undefined when absent.\<close>

definition opt_get :: "obj \<Rightarrow> string \<Rightarrow> jsval" where
  "opt_get es k = (case map_of es k of None \<Rightarrow> JUndefined | Some v \<Rightarrow> v)"

text \<open>Writing a property: \<open>o[k] = v\<close> replaces the value in place or appends the key.\<close>

definition set_prop :: "obj \<Rightarrow> string \<Rightarrow> jsval \<Rightarrow> obj" where
  "set_prop es k v = AList.update k v es"

text \<open>\<open>Object.assign(target, src)\<close>; the spread \<open>{...a, ...b}\<close> is two of them into \<open>{}\<close>.\<close>

definition assign :: "(string \<times> 'v) list \<Rightarrow> (string \<times> 'v) list \<Rightarrow> (string \<times> 'v) list" where
  "assign target src = fold (\<lambda>(k, v) t. AList.update k v t) src target"

definition spread2 :: "(string \<times> 'v) list \<Rightarrow> (string \<times> 'v) list \<Rightarrow> (string \<times> 'v) list" where
  "spread2 a b = assign (assign [] a) b"

subsection \<open>Decimal numerals and ToString\<close>

fun digits :: "nat \<Rightarrow> string" where
  "digits n = (if n < 10 then [char_of (48 + n)]
               else digits (n div 10) @ [char_of (48 + n mod 10)])"

declare digits.simps [simp del]

definition show_int :: "int \<Rightarrow> string" where
  "show_int i = (if i < 0 then CHR ''-'' # digits (nat (- i)) else digits (nat i))"

fun join :: "string \<Rightarrow> string list \<Rightarrow> string" where
  "join sep [] = []"
| "join sep [x] = x"
| "join sep (x # y # ys) = x @ sep @ join sep (y # ys)"

text \<open>
  \<open>String(v)\<close>, as template literals and \<open>URLSearchParams.append\<close> apply it. An array
  joins its elements with commas, null and undefined elements giving the empty string;
  a plain object and a cookie jar give \<open>[object Object]\<close>; a Buffer gives its bytes.
\<close>

fun js_to_string :: "jsval \<Rightarrow> string" where
  "js_to_string JUndefined = ''undefined''"
| "js_to_string JNull = ''null''"
| "js_to_string (JBool b) = (if b then ''true'' else ''false'')"
| "js_to_string (JNum n) = show_int n"
| "js_to_string (JStr s) = s"
| "js_to_string (JBytes bs) = map char_of bs"
| "js_to_string (JArr xs) =
     join '','' (map (\<lambda>v. if v = JUndefined \<or> v = JNull then [] else js_to_string v) xs)"
| "js_to_string (JObj es) = ''[object Object]''"
| "js_to_string (JJar h) = ''[object Object]''"

text \<open>\<open>s.toUpperCase()\<close> on the ASCII letters; other bytes are kept.\<close>

definition upper_char :: "char \<Rightarrow> char" where
  "upper_char c = (let n = (of_char c :: nat) in if 97 \<le> n \<and> n \<le> 122 then char_of (n - 32) else c)"

definition toUpperCase :: "string \<Rightarrow> string" where
  "toUpperCase s = map upper_char s"


section \<open>The platform\<close>

text \<open>
  What the code receives from outside the repository: the fetch transport, the URL
  parser, \<open>JSON.parse\<close>, base64, and the tough-cookie jar objects. The percent-encoding
  of \<open>URLSearchParams\<close> and \<open>JSON.stringify\<close> are written out below.
\<close>

text \<open>
  A parsed URL with its \<open>searchParams\<close> list: \<open>u_prefix\<close> is everything before the
  query, \<open>u_query\<close> the query string (without the question mark), \<open>u_fragment\<close> the
  fragment with its hash sign, or empty.
\<close>

record urlobj =
  u_prefix :: string
  u_query :: "string option"
  u_params :: "(string \<times> string) list"
  u_fragment :: string

text \<open>
  The \<open>fetchOptions\<close> object handed to the transport next to the URL; an unset \<open>body\<close> is
  undefined, \<open>signal\<close> holds the delay after which the abort controller fires.
\<close>

record fetchOptions =
  http_method :: string
  headers :: obj
  body :: jsval
  signal :: "jsval option"

text \<open>
  A fetch \<open>Response\<close>: \<open>rbody\<close> is what reading the whole body gives, the text or the
  message of the error the body stream fails with. \<open>null_body\<close> says that \<open>res.body\<close> is
  null rather than a stream, as it is for the statuses 204 and 205 and for the answer to
  a HEAD request; reading such a response gives the empty text.
\<close>

record response =
  status :: nat
  statusText :: string
  rheaders :: "(string \<times> string) list"
  rbody :: "string + string"
  null_body :: bool

text \<open>\<open>res.ok\<close> of the fetch standard: the status is in the range 200 to 299.\<close>

definition ok :: "response \<Rightarrow> bool" where
  "ok res = (200 \<le> status res \<and> status res \<le> 299)"

text \<open>\<open>responseForCallback\<close>: \<open>lbody\<close> is undefined until the body has been read.\<close>

record legacy_response =
  statusCode :: nat
  lheaders :: "(string \<times> string) list"
  lbody :: jsval

text \<open>
  Errors. \<open>HttpError message statusCode response error options\<close> is the rich error of the
  promise path, \<open>HttpErrorCb message response\<close> the error of the callback path.
\<close>

datatype error =
    Error string
  | TypeError string
  | AbortError
  | HttpError string nat response jsval obj
  | HttpErrorCb string legacy_response

record platform =
  fetch :: "jsval \<Rightarrow> fetchOptions \<Rightarrow> error + response"
  new_URL :: "string \<Rightarrow> urlobj option"
  JSON_parse :: "string \<Rightarrow> jsval option"
  base64 :: "string \<Rightarrow> string"
  usp_init :: "jsval \<Rightarrow> error + (string \<times> string) list"
  jar_entries :: "nat \<Rightarrow> obj"
  jar_json :: "nat \<Rightarrow> string"
  jar_plain :: "nat \<Rightarrow> obj"
  getCookieString :: "nat \<Rightarrow> jsval \<Rightarrow> error + string"
  setCookie :: "nat \<Rightarrow> string \<Rightarrow> jsval \<Rightarrow> error option"
  new_CookieJar :: "nat"

subsection \<open>Own enumerable properties\<close>

text \<open>What a spread \<open>{...v}\<close> and \<open>Object.entries(v)\<close> enumerate.\<close>

definition indexed :: "jsval list \<Rightarrow> obj" where
  "indexed vs = zip (map digits [0..<length vs]) vs"

fun own_entries :: "platform \<Rightarrow> jsval \<Rightarrow> obj" where
  "own_entries env (JObj es) = es"
| "own_entries env (JArr xs) = indexed xs"
| "own_entries env (JStr s) = indexed (map (\<lambda>c. JStr [c]) s)"
| "own_entries env (JBytes bs) = indexed (map (\<lambda>b. JNum (int b)) bs)"
| "own_entries env (JJar h) = jar_entries env h"
| "own_entries env v = []"

definition get_prop :: "platform \<Rightarrow> jsval \<Rightarrow> string \<Rightarrow> jsval" where
  "get_prop env v k = opt_get (own_entries env v) k"

subsection \<open>URLSearchParams\<close>

definition hex_upper :: "nat \<Rightarrow> char" where
  "hex_upper n = (if n < 10 then char_of (48 + n) else char_of (55 + n))"

definition hex_lower :: "nat \<Rightarrow> char" where
  "hex_lower n = (if n < 10 then char_of (48 + n) else char_of (87 + n))"

text \<open>
  The application/x-www-form-urlencoded byte serializer: a space becomes a plus sign;
  letters, digits and \<open>* - . _\<close> stay; every other byte is percent-encoded.
\<close>

definition urlencode_byte :: "char \<Rightarrow> string" where
  "urlencode_byte c =
     (let n = (of_char c :: nat) in
      if n = 32 then ''+''
      else if n = 42 \<or> n = 45 \<or> n = 46 \<or> n = 95 \<or> (48 \<le> n \<and> n \<le> 57)
              \<or> (65 \<le> n \<and> n \<le> 90) \<or> (97 \<le> n \<and> n \<le> 122) then [c]
      else [CHR ''%'', hex_upper (n div 16), hex_upper (n mod 16)])"

definition urlencode :: "string \<Rightarrow> string" where
  "urlencode s = concat (map urlencode_byte s)"

definition urlencoded_serialize :: "(string \<times> string) list \<Rightarrow> string" where
  "urlencoded_serialize ps = join ''&'' (map (\<lambda>(k, v). urlencode k @ ''='' @ urlencode v) ps)"

text \<open>
  \<open>urlObj.searchParams.append(key, value)\<close>: the pair goes to the end of the list and the
  URL's query becomes the serialization of the list (null when that is empty).
\<close>

definition searchParams_append :: "urlobj \<Rightarrow> string \<Rightarrow> string \<Rightarrow> urlobj" where
  "searchParams_append u k v =
     (let ps = u_params u @ [(k, v)]; s = urlencoded_serialize ps
      in u\<lparr>u_params := ps, u_query := (if s = [] then None else Some s)\<rparr>)"

definition url_toString :: "urlobj \<Rightarrow> string" where
  "url_toString u =
     u_prefix u @ (case u_query u of None \<Rightarrow> [] | Some q \<Rightarrow> CHR ''?'' # q) @ u_fragment u"

text \<open>
  \<open>new URLSearchParams(v)\<close>: a plain object is read as a record, each value through
  \<open>String\<close>; anything else is left to the platform (strings are parsed, sequences of pairs
  are read, some values raise).
\<close>

definition URLSearchParams_new :: "platform \<Rightarrow> jsval \<Rightarrow> error + (string \<times> string) list" where
  "URLSearchParams_new env v =
     (case v of JObj es \<Rightarrow> Inr (map (\<lambda>(k, x). (k, js_to_string x)) es) | _ \<Rightarrow> usp_init env v)"

subsection \<open>JSON.stringify\<close>

definition json_escape :: "char \<Rightarrow> string" where
  "json_escape c =
     (let n = (of_char c :: nat) in
      if n = 34 then [CHR 0x5C, CHR 0x22]
      else if n = 92 then [CHR 0x5C, CHR 0x5C]
      else if n = 8 then [CHR 0x5C, CHR ''b'']
      else if n = 12 then [CHR 0x5C, CHR ''f'']
      else if n = 10 then [CHR 0x5C, CHR ''n'']
      else if n = 13 then [CHR 0x5C, CHR ''r'']
      else if n = 9 then [CHR 0x5C, CHR ''t'']
      else if n < 32 then [CHR 0x5C, CHR ''u'', CHR ''0'', CHR ''0'', hex_lower (n div 16), hex_lower (n mod 16)]
      else [c])"

definition json_quote :: "string \<Rightarrow> string" where
  "json_quote s = CHR 0x22 # concat (map json_escape s) @ [CHR 0x22]"

text \<open>
  \<open>JSON.stringify(v)\<close>: None is the result undefined. A property whose value is undefined
  is left out, an undefined array element is written null, a Buffer is written through
  its \<open>toJSON\<close> as \<open>{"type":"Buffer","data":[...]}\<close>, a cookie jar through its own.
\<close>

fun JSON_stringify :: "platform \<Rightarrow> jsval \<Rightarrow> string option" where
  "JSON_stringify env JUndefined = None"
| "JSON_stringify env JNull = Some ''null''"
| "JSON_stringify env (JBool b) = Some (if b then ''true'' else ''false'')"
| "JSON_stringify env (JNum n) = Some (show_int n)"
| "JSON_stringify env (JStr s) = Some (json_quote s)"
| "JSON_stringify env (JBytes bs) =
     Some (''{'' @ json_quote ''type'' @ '':'' @ json_quote ''Buffer'' @ '','' @ json_quote ''data''
           @ '':['' @ join '','' (map (\<lambda>b. show_int (int b)) bs) @ '']}'')"
| "JSON_stringify env (JArr xs) =
     Some (''['' @ join '','' (map (\<lambda>v. case JSON_stringify env v of None \<Rightarrow> ''null'' | Some s \<Rightarrow> s) xs)
           @ '']'')"
| "JSON_stringify env (JObj es) =
     Some (''{'' @ join '','' (concat (map (\<lambda>(k, v). case JSON_stringify env v of
                                                      None \<Rightarrow> [] | Some s \<Rightarrow> [json_quote k @ '':'' @ s]) es))
           @ ''}'')"
| "JSON_stringify env (JJar h) = Some (jar_json env h)"


section \<open>translateOptions\<close>

text \<open>
  \<open>translateOptions(options, jar)\<close> of the jar-enabled module, block by block. The module
  without cookie jars has the same function without the jar block, which is this one
  with \<open>jar\<close> null. The result \<open>{ url, ...fetchOptions }\<close> is the pair the callers take apart.
\<close>

text \<open>\<open>headers: { ...(options.headers || {}) }\<close>\<close>

definition headers_copy :: "platform \<Rightarrow> obj \<Rightarrow> obj" where
  "headers_copy env options =
     assign [] (own_entries env (js_or (opt_get options ''headers'') (JObj [])))"

text \<open>\<open>if (options.timeout) { ... fetchOptions.signal = controller.signal; setTimeout(...) }\<close>\<close>

definition timeout_signal :: "obj \<Rightarrow> jsval option" where
  "timeout_signal options =
     (if truthy (opt_get options ''timeout'') then Some (opt_get options ''timeout'') else None)"

text \<open>
  \<open>if (jar) { const cookieString = await jar.getCookieString(url);
  if (cookieString) fetchOptions.headers['Cookie'] = cookieString; }\<close>
  A truthy \<open>jar\<close> that is no cookie jar has no such method.
\<close>

definition jar_step :: "platform \<Rightarrow> jsval \<Rightarrow> jsval \<Rightarrow> obj \<Rightarrow> error + obj" where
  "jar_step env jar u hs =
     (if truthy jar then
        (case jar of
           JJar h \<Rightarrow>
             (case getCookieString env h u of
                Inl e \<Rightarrow> Inl e
              | Inr cookieString \<Rightarrow>
                  Inr (if cookieString \<noteq> [] then set_prop hs ''Cookie'' (JStr cookieString) else hs))
         | _ \<Rightarrow> Inl (TypeError ''jar.getCookieString is not a function''))
      else Inr hs)"

text \<open>
  \<open>if (options.auth) { const { user, pass } = options.auth; ...
  fetchOptions.headers['Authorization'] = `Basic ${encoded}`; }\<close>
\<close>

definition auth_step :: "platform \<Rightarrow> obj \<Rightarrow> obj \<Rightarrow> obj" where
  "auth_step env options hs =
     (let auth = opt_get options ''auth'' in
      if truthy auth then
        (let user = get_prop env auth ''user''; pass = get_prop env auth ''pass'';
             encoded = base64 env (js_to_string user @ '':'' @ js_to_string pass)
         in set_prop hs ''Authorization'' (JStr (''Basic '' @ encoded)))
      else hs)"

text \<open>The three body branches; the result is \<open>fetchOptions.body\<close> and the headers.\<close>

definition body_step :: "platform \<Rightarrow> obj \<Rightarrow> obj \<Rightarrow> error + (jsval \<times> obj)" where
  "body_step env options hs =
     (if truthy (opt_get options ''json'') \<and> opt_get options ''body'' \<noteq> JUndefined then
        (let b = (case JSON_stringify env (opt_get options ''body'') of
                    None \<Rightarrow> JUndefined | Some s \<Rightarrow> JStr s);
             hs1 = set_prop hs ''Content-Type'' (JStr ''application/json'')
         in Inr (b, if \<not> truthy (opt_get hs1 ''Accept'')
                    then set_prop hs1 ''Accept'' (JStr ''application/json'') else hs1))
      else if truthy (opt_get options ''form'') then
        (case URLSearchParams_new env (opt_get options ''form'') of
           Inl e \<Rightarrow> Inl e
         | Inr ps \<Rightarrow> Inr (JStr (urlencoded_serialize ps),
                         set_prop hs ''Content-Type'' (JStr ''application/x-www-form-urlencoded'')))
      else if truthy (opt_get options ''body'') then Inr (opt_get options ''body'', hs)
      else Inr (JUndefined, hs))"

text \<open>
  \<open>if (options.qs) { const urlObj = new URL(url);
  for (const [key, value] of Object.entries(options.qs)) urlObj.searchParams.append(key, value);
  url = urlObj.toString(); }\<close>
\<close>

definition qs_append_all :: "obj \<Rightarrow> urlobj \<Rightarrow> urlobj" where
  "qs_append_all es u = fold (\<lambda>(key, v) uo. searchParams_append uo key (js_to_string v)) es u"

definition qs_step :: "platform \<Rightarrow> obj \<Rightarrow> jsval \<Rightarrow> error + jsval" where
  "qs_step env options u =
     (if truthy (opt_get options ''qs'') then
        (case new_URL env (js_to_string u) of
           None \<Rightarrow> Inl (TypeError ''Invalid URL'')
         | Some urlObj \<Rightarrow>
             Inr (JStr (url_toString (qs_append_all (own_entries env (opt_get options ''qs'')) urlObj))))
      else Inr u)"

definition translateOptions :: "platform \<Rightarrow> obj \<Rightarrow> jsval \<Rightarrow> error + (jsval \<times> fetchOptions)" where
  "translateOptions env options jar =
     (case js_or (opt_get options ''method'') (JStr ''GET'') of
        JStr m \<Rightarrow>
          (let u = js_or (opt_get options ''url'') (opt_get options ''uri'') in
           if \<not> truthy u then Inl (Error ''URL is required.'')
           else
             (case jar_step env jar u (headers_copy env options) of
                Inl e \<Rightarrow> Inl e
              | Inr hs1 \<Rightarrow>
                  (case body_step env options (auth_step env options hs1) of
                     Inl e \<Rightarrow> Inl e
                   | Inr (b, hs2) \<Rightarrow>
                       (case qs_step env options u of
                          Inl e \<Rightarrow> Inl e
                        | Inr u' \<Rightarrow>
                            Inr (u', \<lparr>http_method = toUpperCase m, headers = hs2, body = b,
                                      signal = timeout_signal options\<rparr>)))))
      | _ \<Rightarrow> Inl (TypeError ''toUpperCase is not a function''))"

section \<open>consumeBody\<close>

text \<open>
  \<open>encoding === null\<close> gives the bytes; otherwise with \<open>json\<close> the text is parsed and a
  parse error falls back to the text; otherwise the text. Reading the body can fail.
\<close>

definition consumeBody :: "platform \<Rightarrow> response \<Rightarrow> obj \<Rightarrow> error + jsval" where
  "consumeBody env res options =
     (if opt_get options ''encoding'' = JNull then
        (case rbody res of
           Inl m \<Rightarrow> Inl (TypeError m)
         | Inr text \<Rightarrow> Inr (JBytes (map of_char text)))
      else if truthy (opt_get options ''json'') then
        (case rbody res of
           Inl m \<Rightarrow> Inl (TypeError m)
         | Inr text \<Rightarrow>
             (case JSON_parse env text of
                Some v \<Rightarrow> Inr v
              | None \<Rightarrow> Inr (JStr text)))
      else
        (case rbody res of
           Inl m \<Rightarrow> Inl (TypeError m)
         | Inr text \<Rightarrow> Inr (JStr text)))"

text \<open>
  A platform for the examples: the transport answers 200 with the body \<open>{}\<close>, URLs have no
  query, only \<open>{}\<close> parses as JSON, jars are empty. Examples change the fields they need;
  none depends on the base64 field, left as the identity here.
\<close>

definition example_platform :: platform where
  "example_platform =
     \<lparr>fetch = (\<lambda>u fo. Inr \<lparr>status = 200, statusText = ''OK'', rheaders = [], rbody = Inr ''{}'', null_body = False\<rparr>),
      new_URL = (\<lambda>s. Some \<lparr>u_prefix = s, u_query = None, u_params = [], u_fragment = []\<rparr>),
      JSON_parse = (\<lambda>s. if s = ''{}'' then Some (JObj []) else None),
      base64 = (\<lambda>s. s),
      usp_init = (\<lambda>v. Inr []),
      jar_entries = (\<lambda>h. []),
      jar_json = (\<lambda>h. ''{}''),
      jar_plain = (\<lambda>h. []),
      getCookieString = (\<lambda>h u. Inr []),
      setCookie = (\<lambda>h c u. None),
      new_CookieJar = 0\<rparr>"

section \<open>DropinRequest: a stream that is also a promise\<close>

text \<open>What the promise view settles with: the parsed body, or the transport response.\<close>

datatype resolution = Body jsval | Res response

datatype promise_state = Pending | Resolved resolution | Rejected error

datatype event = ResponseEvent response | ErrorEvent error

text \<open>
  The object: \<open>this._options\<close>, \<open>this._jar\<close> (jar-enabled module only, undefined
  otherwise), \<open>this._isPiped\<close>, the state of \<open>this._promise\<close>, the events emitted so far,
  the destinations attached by \<open>pipe\<close>, and the body stream piped into the object by
  \<open>Readable.fromWeb(res.body).pipe(this)\<close>, which a PassThrough forwards to its
  destinations.
\<close>

record DropinRequest =
  this_options :: obj
  this_jar :: jsval
  this_isPiped :: bool
  this_promise :: promise_state
  emitted :: "event list"
  destinations :: "nat list"
  inflow :: "(string + string) option"

text \<open>
  The constructor stores the options, creates the pending promise and schedules \<open>_init\<close>
  for the next tick; it calls neither \<open>translateOptions\<close> nor the transport.
\<close>

definition DropinRequest_new :: "obj \<Rightarrow> jsval \<Rightarrow> DropinRequest" where
  "DropinRequest_new options jar =
     \<lparr>this_options = options, this_jar = jar, this_isPiped = False, this_promise = Pending,
      emitted = [], destinations = [], inflow = None\<rparr>"

definition pipe :: "DropinRequest \<Rightarrow> nat \<Rightarrow> DropinRequest" where
  "pipe d destination = d\<lparr>this_isPiped := True, destinations := destinations d @ [destination]\<rparr>"

text \<open>A promise settles once: resolving or rejecting a settled promise does nothing.\<close>

definition promiseResolver :: "DropinRequest \<Rightarrow> resolution \<Rightarrow> DropinRequest" where
  "promiseResolver d v = (if this_promise d = Pending then d\<lparr>this_promise := Resolved v\<rparr> else d)"

definition promiseRejector :: "DropinRequest \<Rightarrow> error \<Rightarrow> DropinRequest" where
  "promiseRejector d e = (if this_promise d = Pending then d\<lparr>this_promise := Rejected e\<rparr> else d)"

definition emit :: "DropinRequest \<Rightarrow> event \<Rightarrow> DropinRequest" where
  "emit d ev = d\<lparr>emitted := emitted d @ [ev]\<rparr>"

text \<open>The failure handler: \<open>this._promiseRejector(err); this.emit('error', err);\<close>\<close>

definition fail :: "DropinRequest \<Rightarrow> error \<Rightarrow> DropinRequest" where
  "fail d err = emit (promiseRejector d err) (ErrorEvent err)"

text \<open>\<open>new Error(`HTTP Error: ${res.status} ${res.statusText}`)\<close> with its fields.\<close>

definition http_error :: "response \<Rightarrow> jsval \<Rightarrow> obj \<Rightarrow> error" where
  "http_error res b options =
     HttpError (''HTTP Error: '' @ digits (status res) @ '' '' @ statusText res) (status res) res b options"

text \<open>
  The handlers chained on the transport call in \<open>_init\<close> of the module without jars,
  applied to the outcome of the call: the response handler, the resolver, and the single
  failure handler. \<open>this._isPiped\<close> is read when the response arrives. In the piped
  branch \<open>Readable.fromWeb(res.body)\<close> raises a TypeError (code ERR_INVALID_ARG_TYPE) when
  \<open>res.body\<close> is null; the error is raised inside the response handler, so it reaches the
  failure handler.
\<close>

definition settle :: "platform \<Rightarrow> DropinRequest \<Rightarrow> error + response \<Rightarrow> DropinRequest" where
  "settle env d outcome =
     (case outcome of
        Inl err \<Rightarrow> fail d err
      | Inr res \<Rightarrow>
          (let d1 = emit d (ResponseEvent res) in
           if \<not> ok res then
             (case consumeBody env res (this_options d1) of
                Inl err \<Rightarrow> fail d1 err
              | Inr b \<Rightarrow> fail d1 (http_error res b (this_options d1)))
           else if this_isPiped d1 then
             (if null_body res then fail d1 (TypeError ''ERR_INVALID_ARG_TYPE'')
              else promiseResolver (d1\<lparr>inflow := Some (rbody res)\<rparr>) (Res res))
           else
             (case consumeBody env res (this_options d1) of
                Inl err \<Rightarrow> fail d1 err
              | Inr b \<Rightarrow> promiseResolver d1 (Body b))))"

text \<open>\<open>_init\<close> of the module without jars; a synchronous error goes to the failure handler.\<close>

definition init :: "platform \<Rightarrow> DropinRequest \<Rightarrow> DropinRequest" where
  "init env d =
     (case translateOptions env (this_options d) JNull of
        Inl err \<Rightarrow> fail d err
      | Inr (u, fo) \<Rightarrow> settle env d (fetch env u fo))"

text \<open>
  The jar block after the transport call:
  \<open>if (jar) { const setCookieHeader = res.headers.get('set-cookie');
  if (setCookieHeader) await jar.setCookie(setCookieHeader, url); }\<close>;
  the result is the error it raises, if any. Response header names are lower-case.
\<close>

definition store_cookies :: "platform \<Rightarrow> jsval \<Rightarrow> response \<Rightarrow> jsval \<Rightarrow> error option" where
  "store_cookies env jar res u =
     (if truthy jar then
        (case map_of (rheaders res) ''set-cookie'' of
           None \<Rightarrow> None
         | Some setCookieHeader \<Rightarrow>
             if setCookieHeader \<noteq> [] then
               (case jar of
                  JJar h \<Rightarrow> setCookie env h setCookieHeader u
                | _ \<Rightarrow> Some (TypeError ''jar.setCookie is not a function''))
             else None)
      else None)"

text \<open>\<open>_init\<close> of the jar-enabled module, after \<open>translateOptions\<close>, on the outcome of the call.\<close>

definition settle_jar :: "platform \<Rightarrow> DropinRequest \<Rightarrow> jsval \<Rightarrow> error + response \<Rightarrow> DropinRequest" where
  "settle_jar env d u outcome =
     (case outcome of
        Inl err \<Rightarrow> fail d err
      | Inr res \<Rightarrow>
          (case store_cookies env (this_jar d) res u of
             Some err \<Rightarrow> fail d err
           | None \<Rightarrow>
               (let d1 = emit d (ResponseEvent res) in
                if \<not> ok res then
                  (case consumeBody env res (this_options d1) of
                     Inl err \<Rightarrow> fail d1 err
                   | Inr b \<Rightarrow> fail d1 (http_error res b (this_options d1)))
                else if this_isPiped d1 then
                  (if null_body res then fail d1 (TypeError ''ERR_INVALID_ARG_TYPE'')
                   else promiseResolver (d1\<lparr>inflow := Some (rbody res)\<rparr>) (Res res))
                else
                  (case consumeBody env res (this_options d1) of
                     Inl err \<Rightarrow> fail d1 err
                   | Inr b \<Rightarrow> promiseResolver d1 (Body b)))))"

definition init_jar :: "platform \<Rightarrow> DropinRequest \<Rightarrow> DropinRequest" where
  "init_jar env d =
     (case translateOptions env (this_options d) (this_jar d) of
        Inl err \<Rightarrow> fail d err
      | Inr (u, fo) \<Rightarrow> settle_jar env d u (fetch env u fo))"

section \<open>createRequestInstance\<close>

text \<open>An argument of the entry point: a value, or a function (known by a handle).\<close>

datatype arg = Value jsval | Function nat

text \<open>\<open>typeof v === 'object' && v !== null\<close> and \<open>typeof v === 'string'\<close>\<close>

fun is_object :: "arg \<Rightarrow> bool" where
  "is_object (Value (JObj es)) = True"
| "is_object (Value (JArr xs)) = True"
| "is_object (Value (JBytes bs)) = True"
| "is_object (Value (JJar h)) = True"
| "is_object a = False"

fun is_function :: "arg \<Rightarrow> bool" where
  "is_function (Function f) = True"
| "is_function a = False"

text \<open>The own enumerable properties of an argument; the spread of a function copies none.\<close>

fun arg_entries :: "platform \<Rightarrow> arg \<Rightarrow> obj" where
  "arg_entries env (Value v) = own_entries env v"
| "arg_entries env (Function f) = []"

text \<open>
  The first lines of \<open>mainRequest\<close>: the options gathered from \<open>uri\<close> and \<open>options\<close>, and
  the callback after \<open>if (typeof options === 'function') callback = options\<close>.
\<close>

definition gather_opts :: "platform \<Rightarrow> arg \<Rightarrow> arg \<Rightarrow> obj" where
  "gather_opts env uri options =
     (let opts = (if is_object uri then assign [] (arg_entries env uri)
                  else (case uri of Value (JStr s) \<Rightarrow> set_prop [] ''url'' (JStr s) | _ \<Rightarrow> []))
      in if is_function options then opts
         else if is_object options then spread2 opts (arg_entries env options)
         else opts)"

definition pick_callback :: "arg \<Rightarrow> arg \<Rightarrow> arg" where
  "pick_callback options callback = (if is_function options then options else callback)"

text \<open>The arguments the callback is invoked with; null is \<open>None\<close>, or \<open>JNull\<close> for the body.\<close>

record callback_args =
  cb_error :: "error option"
  cb_response :: "legacy_response option"
  cb_body :: jsval

text \<open>
  The callback branch of the module without jars. \<open>responseForCallback\<close> is assigned when
  the response arrives, so the failure handler passes \<open>responseForCallback || null\<close>.
\<close>

definition callback_path :: "platform \<Rightarrow> obj \<Rightarrow> callback_args" where
  "callback_path env finalOptions =
     (case translateOptions env finalOptions JNull of
        Inl err \<Rightarrow> \<lparr>cb_error = Some err, cb_response = None, cb_body = JNull\<rparr>
      | Inr (u, fo) \<Rightarrow>
          (case fetch env u fo of
             Inl err \<Rightarrow> \<lparr>cb_error = Some err, cb_response = None, cb_body = JNull\<rparr>
           | Inr res \<Rightarrow>
               (let responseForCallback =
                      \<lparr>statusCode = status res, lheaders = rheaders res, lbody = JUndefined\<rparr>
                in case consumeBody env res finalOptions of
                     Inl err \<Rightarrow>
                       \<lparr>cb_error = Some err, cb_response = Some responseForCallback, cb_body = JNull\<rparr>
                   | Inr b \<Rightarrow>
                       (let responseForCallback = responseForCallback\<lparr>lbody := b\<rparr> in
                        if statusCode responseForCallback \<ge> 400 then
                          \<lparr>cb_error = Some (HttpErrorCb (''HTTP Error '' @ digits (statusCode responseForCallback))
                                                         responseForCallback),
                           cb_response = Some responseForCallback, cb_body = b\<rparr>
                        else
                          \<lparr>cb_error = None, cb_response = Some responseForCallback, cb_body = b\<rparr>))))"

text \<open>The callback branch of the jar-enabled module, an async function with one handler.\<close>

definition callback_path_jar :: "platform \<Rightarrow> obj \<Rightarrow> jsval \<Rightarrow> callback_args" where
  "callback_path_jar env finalOptions activeJar =
     (case translateOptions env finalOptions activeJar of
        Inl err \<Rightarrow> \<lparr>cb_error = Some err, cb_response = None, cb_body = JNull\<rparr>
      | Inr (u, fo) \<Rightarrow>
          (case fetch env u fo of
             Inl err \<Rightarrow> \<lparr>cb_error = Some err, cb_response = None, cb_body = JNull\<rparr>
           | Inr res \<Rightarrow>
               (case store_cookies env activeJar res u of
                  Some err \<Rightarrow> \<lparr>cb_error = Some err, cb_response = None, cb_body = JNull\<rparr>
                | None \<Rightarrow>
                    (let responseForCallback =
                           \<lparr>statusCode = status res, lheaders = rheaders res, lbody = JUndefined\<rparr>
                     in case consumeBody env res finalOptions of
                          Inl err \<Rightarrow>
                            \<lparr>cb_error = Some err, cb_response = Some responseForCallback, cb_body = JNull\<rparr>
                        | Inr b \<Rightarrow>
                            (let responseForCallback = responseForCallback\<lparr>lbody := b\<rparr> in
                             if \<not> ok res then
                               \<lparr>cb_error = Some (HttpErrorCb (''HTTP Error '' @ digits (statusCode responseForCallback))
                                                              responseForCallback),
                                cb_response = Some responseForCallback, cb_body = b\<rparr>
                             else
                               \<lparr>cb_error = None, cb_response = Some responseForCallback, cb_body = b\<rparr>)))))"

text \<open>
  What a call of the entry point does: with a callback it returns undefined and the
  callback is invoked with the given arguments; without one it returns the new object.
\<close>

datatype call_result = Called callback_args | Returned DropinRequest

definition mainRequest :: "platform \<Rightarrow> obj \<Rightarrow> arg \<Rightarrow> arg \<Rightarrow> arg \<Rightarrow> call_result" where
  "mainRequest env defaultOptions uri options callback =
     (let opts = gather_opts env uri options;
          callback = pick_callback options callback;
          finalOptions = spread2 defaultOptions opts
      in if is_function callback then Called (callback_path env finalOptions)
         else Returned (DropinRequest_new finalOptions JUndefined))"

text \<open>
  The jar-enabled entry point also carries \<open>instanceJar\<close>, created on the first call with
  \<open>jar: true\<close>.
\<close>

definition select_jar :: "platform \<Rightarrow> jsval \<Rightarrow> obj \<Rightarrow> jsval \<times> jsval" where
  "select_jar env instanceJar finalOptions =
     (if opt_get finalOptions ''jar'' = JBool True then
        (let instanceJar = (if \<not> truthy instanceJar then JJar (new_CookieJar env) else instanceJar)
         in (instanceJar, instanceJar))
      else if truthy (opt_get finalOptions ''jar'') then (opt_get finalOptions ''jar'', instanceJar)
      else (JNull, instanceJar))"

definition mainRequest_jar ::
  "platform \<Rightarrow> obj \<Rightarrow> jsval \<Rightarrow> arg \<Rightarrow> arg \<Rightarrow> arg \<Rightarrow> call_result \<times> jsval" where
  "mainRequest_jar env defaultOptions instanceJar uri options callback =
     (let opts = gather_opts env uri options;
          callback = pick_callback options callback;
          finalOptions = spread2 defaultOptions opts;
          (activeJar, instanceJar) = select_jar env instanceJar finalOptions
      in if is_function callback then (Called (callback_path_jar env finalOptions activeJar), instanceJar)
         else (Returned (DropinRequest_new finalOptions activeJar), instanceJar))"

text \<open>
  The verb shortcuts \<open>get, post, put, delete, patch, head, options\<close>: gather the options,
  set \<open>opts.method\<close> to the verb in upper case, and call \<open>mainRequest(opts, callback)\<close>.
\<close>

definition verb :: "platform \<Rightarrow> obj \<Rightarrow> string \<Rightarrow> arg \<Rightarrow> arg \<Rightarrow> arg \<Rightarrow> call_result" where
  "verb env defaultOptions m uri options callback =
     (let opts = gather_opts env uri options;
          callback = pick_callback options callback;
          opts = set_prop opts ''method'' (JStr (toUpperCase m))
      in mainRequest env defaultOptions (Value (JObj opts)) callback (Value JUndefined))"

subsection \<open>defaults\<close>




section \<open>The class-style module: headers and body in \<open>_fetchWrapper\<close>\<close>

text \<open>
  The class-style variant of the module builds headers and body inside \<open>_fetchWrapper\<close>.
  Its body is a \<open>URLSearchParams\<close> object, a string or the caller's value.
\<close>

datatype wrapper_body = NoBody | ParamsBody "(string \<times> string) list" | ValueBody jsval

text \<open>\<open>!headers['content-type'] && !headers['Content-Type']\<close>\<close>

definition no_content_type :: "obj \<Rightarrow> bool" where
  "no_content_type hs = (\<not> truthy (opt_get hs ''content-type'') \<and> \<not> truthy (opt_get hs ''Content-Type''))"

text \<open>
  From \<open>const headers = { ...(this.defaults.headers || {}), ...(options.headers || {}) }\<close>
  to the end of the body branches: form first, then json with a truthy object body, then
  any body that is not undefined. An inferred Content-Type is set only when none is there.
\<close>

definition fetchWrapper_headers_body ::
  "platform \<Rightarrow> obj \<Rightarrow> obj \<Rightarrow> error + (obj \<times> wrapper_body)" where
  "fetchWrapper_headers_body env this_defaults options =
     (let hs = spread2 (own_entries env (js_or (opt_get this_defaults ''headers'') (JObj [])))
                       (own_entries env (js_or (opt_get options ''headers'') (JObj [])))
      in if truthy (opt_get options ''form'') then
           (case URLSearchParams_new env (opt_get options ''form'') of
              Inl e \<Rightarrow> Inl e
            | Inr ps \<Rightarrow>
                Inr (if no_content_type hs
                     then set_prop hs ''Content-Type'' (JStr ''application/x-www-form-urlencoded'')
                     else hs, ParamsBody ps))
         else if truthy (opt_get options ''json'') \<and> truthy (opt_get options ''body'')
                 \<and> is_object (Value (opt_get options ''body'')) then
           Inr (if no_content_type hs
                then set_prop hs ''Content-Type'' (JStr ''application/json'') else hs,
                ValueBody (case JSON_stringify env (opt_get options ''body'') of
                             None \<Rightarrow> JUndefined | Some s \<Rightarrow> JStr s))
         else if opt_get options ''body'' \<noteq> JUndefined then
           Inr (hs, ValueBody (opt_get options ''body''))
         else Inr (hs, NoBody))"

subsection \<open>Partial option records and their merge\<close>


text \<open>An object as JavaScript has it: no key twice.\<close>

definition distinct_keys :: "obj \<Rightarrow> bool" where
  "distinct_keys es = distinct (map fst es)"



section \<open>The entry point on a store of objects\<close>

text \<open>
  To say which objects a call writes to, the same statements of \<open>mainRequest\<close>, the verb
  shortcuts and \<open>translateOptions\<close> (module without jars) are followed on a store:
  objects live at addresses, values refer to them, an object literal or a spread
  allocates, and a property assignment updates the object at an address.
\<close>

type_synonym addr = nat

datatype hval = HUndefined | HNull | HBool bool | HNum int | HStr string | HFun nat | HRef addr

type_synonym hobj = "(string \<times> hval) list"

type_synonym store = "hobj list"

fun h_truthy :: "hval \<Rightarrow> bool" where
  "h_truthy HUndefined = False"
| "h_truthy HNull = False"
| "h_truthy (HBool b) = b"
| "h_truthy (HNum n) = (n \<noteq> 0)"
| "h_truthy (HStr s) = (s \<noteq> [])"
| "h_truthy (HFun f) = True"
| "h_truthy (HRef a) = True"

definition h_or :: "hval \<Rightarrow> hval \<Rightarrow> hval" where
  "h_or a b = (if h_truthy a then a else b)"

text \<open>A new object gets the next address; the objects already there stay where they are.\<close>

definition alloc :: "store \<Rightarrow> hobj \<Rightarrow> addr \<times> store" where
  "alloc st es = (length st, st @ [es])"

text \<open>The own enumerable properties of a value: those of the object it refers to.\<close>

fun h_entries :: "store \<Rightarrow> hval \<Rightarrow> hobj" where
  "h_entries st (HRef a) = (if a < length st then st ! a else [])"
| "h_entries st (HStr s) = zip (map digits [0..<length s]) (map (\<lambda>c. HStr [c]) s)"
| "h_entries st v = []"

definition h_get :: "store \<Rightarrow> hval \<Rightarrow> string \<Rightarrow> hval" where
  "h_get st v k = (case map_of (h_entries st v) k of None \<Rightarrow> HUndefined | Some x \<Rightarrow> x)"

text \<open>\<open>o[k] = v\<close> for the object at address \<open>a\<close>.\<close>

definition write_prop :: "store \<Rightarrow> addr \<Rightarrow> string \<Rightarrow> hval \<Rightarrow> store" where
  "write_prop st a k v = (if a < length st then st[a := AList.update k v (st ! a)] else st)"

text \<open>\<open>fetchOptions.headers[k] = v\<close>: the target is whatever \<open>fetchOptions.headers\<close> refers to.\<close>

definition write_headers :: "store \<Rightarrow> addr \<Rightarrow> string \<Rightarrow> hval \<Rightarrow> store" where
  "write_headers st fo k v =
     (case h_get st (HRef fo) ''headers'' of HRef a \<Rightarrow> write_prop st a k v | _ \<Rightarrow> st)"

text \<open>
  The built-ins the statements call. They read the store and return strings; none of
  them writes to an object: \<open>String\<close>, base64, \<open>JSON.stringify\<close> (undefined or a string),
  \<open>new URLSearchParams(form).toString()\<close>, and the URL with the entries of \<open>qs\<close>
  appended.
\<close>

record store_platform =
  st_to_string :: "store \<Rightarrow> hval \<Rightarrow> string"
  st_base64 :: "string \<Rightarrow> string"
  st_stringify :: "store \<Rightarrow> hval \<Rightarrow> hval"
  st_form :: "store \<Rightarrow> hval \<Rightarrow> error + string"
  st_with_qs :: "store \<Rightarrow> hval \<Rightarrow> hval \<Rightarrow> error + string"

text \<open>
  The end of \<open>translateOptions\<close>: the qs block, which only replaces the local \<open>url\<close>, and
  \<open>return { url, ...fetchOptions }\<close>, a new object.
\<close>

definition finish_st ::
  "store_platform \<Rightarrow> store \<Rightarrow> addr \<Rightarrow> addr \<Rightarrow> hval \<Rightarrow> store \<times> (error + addr)" where
  "finish_st P st options fo u =
     (let qs = h_get st (HRef options) ''qs'' in
      case (if h_truthy qs then map_sum id HStr (st_with_qs P st u qs) else Inr u) of
        Inl e \<Rightarrow> (st, Inl e)
      | Inr u' \<Rightarrow>
          (let (res, st) = alloc st ((''url'', u') # h_entries st (HRef fo)) in (st, Inr res)))"

text \<open>
  The object literal \<open>{ method: ..., headers: { ...(options.headers || {}) } }\<close> and the
  timeout block, which stores the signal of a new abort controller in \<open>fetchOptions\<close>.
\<close>

definition start_st :: "store \<Rightarrow> addr \<Rightarrow> string \<Rightarrow> addr \<times> store" where
  "start_st st options m =
     (let (empty, st) = alloc st [];
          (hs, st) = alloc st (assign [] (h_entries st (h_or (h_get st (HRef options) ''headers'') (HRef empty))));
          (fo, st) = alloc st [(''method'', HStr (toUpperCase m)), (''headers'', HRef hs)]
      in if h_truthy (h_get st (HRef options) ''timeout'') then
           (let (controller, st) = alloc st [] in (fo, write_prop st fo ''signal'' (HRef controller)))
         else (fo, st))"

text \<open>The auth block.\<close>

definition auth_st :: "store_platform \<Rightarrow> store \<Rightarrow> addr \<Rightarrow> addr \<Rightarrow> store" where
  "auth_st P st options fo =
     (let auth = h_get st (HRef options) ''auth'' in
      if h_truthy auth then
        write_headers st fo ''Authorization''
          (HStr (''Basic '' @ st_base64 P (st_to_string P st (h_get st auth ''user'') @ '':''
                                          @ st_to_string P st (h_get st auth ''pass''))))
      else st)"

text \<open>The body branches; the second component is the error \<open>URLSearchParams\<close> raises, if any.\<close>

definition body_st :: "store_platform \<Rightarrow> store \<Rightarrow> addr \<Rightarrow> addr \<Rightarrow> store \<times> error option" where
  "body_st P st options fo =
     (let b = h_get st (HRef options) ''body'' in
      if h_truthy (h_get st (HRef options) ''json'') \<and> b \<noteq> HUndefined then
        (let st = write_prop st fo ''body'' (st_stringify P st b);
             st = write_headers st fo ''Content-Type'' (HStr ''application/json'')
         in if \<not> h_truthy (h_get st (h_get st (HRef fo) ''headers'') ''Accept'')
            then (write_headers st fo ''Accept'' (HStr ''application/json''), None)
            else (st, None))
      else if h_truthy (h_get st (HRef options) ''form'') then
        (case st_form P st (h_get st (HRef options) ''form'') of
           Inl e \<Rightarrow> (st, Some e)
         | Inr text \<Rightarrow>
             (write_headers (write_prop st fo ''body'' (HStr text)) fo ''Content-Type''
                (HStr ''application/x-www-form-urlencoded''), None))
      else if h_truthy b then (write_prop st fo ''body'' b, None)
      else (st, None))"

text \<open>
  \<open>translateOptions(options)\<close> with \<open>options\<close> at an address: the store afterwards, and the
  error raised or the address of the returned object.
\<close>

definition translateOptions_st ::
  "store_platform \<Rightarrow> store \<Rightarrow> addr \<Rightarrow> store \<times> (error + addr)" where
  "translateOptions_st P st options =
     (case h_or (h_get st (HRef options) ''method'') (HStr ''GET'') of
        HStr m \<Rightarrow>
          (let (fo, st) = start_st st options m;
               u = h_or (h_get st (HRef options) ''url'') (h_get st (HRef options) ''uri'')
           in if \<not> h_truthy u then (st, Inl (Error ''URL is required.''))
              else
                (let st = auth_st P st options fo;
                     (st, e) = body_st P st options fo
                 in case e of
                      Some err \<Rightarrow> (st, Inl err)
                    | None \<Rightarrow> finish_st P st options fo u))
      | _ \<Rightarrow> (st, Inl (TypeError ''toUpperCase is not a function'')))"

text \<open>
  \<open>const { url, ...fetchOptions } = translateOptions(finalOptions)\<close>: the rest object is
  new; the result is the URL and the address of the object handed to the transport.
\<close>

definition dispatch_st ::
  "store_platform \<Rightarrow> store \<Rightarrow> addr \<Rightarrow> store \<times> (error + hval \<times> addr)" where
  "dispatch_st P st options =
     (case translateOptions_st P st options of
        (st, Inl e) \<Rightarrow> (st, Inl e)
      | (st, Inr res) \<Rightarrow>
          (let (rest, st) = alloc st (filter (\<lambda>(k, v). k \<noteq> ''url'') (h_entries st (HRef res)))
           in (st, Inr (h_get st (HRef res) ''url'', rest))))"

text \<open>
  The first lines of \<open>mainRequest\<close> and of each verb shortcut: \<open>opts\<close> is always an object
  created here.
\<close>

definition gather_opts_st :: "store \<Rightarrow> hval \<Rightarrow> hval \<Rightarrow> addr \<times> store" where
  "gather_opts_st st uri options =
     (let (opts, st) = alloc st [];
          (opts, st) = (case uri of
                          HRef a \<Rightarrow> alloc st (assign [] (h_entries st uri))
                        | HStr s \<Rightarrow> (opts, write_prop st opts ''url'' uri)
                        | _ \<Rightarrow> (opts, st))
      in case options of
           HFun f \<Rightarrow> (opts, st)
         | HRef a \<Rightarrow> alloc st (spread2 (h_entries st (HRef opts)) (h_entries st options))
         | _ \<Rightarrow> (opts, st))"

definition pick_callback_st :: "hval \<Rightarrow> hval \<Rightarrow> hval" where
  "pick_callback_st options callback = (case options of HFun f \<Rightarrow> options | _ \<Rightarrow> callback)"

text \<open>
  \<open>mainRequest(uri, options, callback)\<close> of an instance whose \<open>defaultOptions\<close> is at an
  address, up to the transport call: with a callback the call translates the options at
  once; without one it creates the \<open>DropinRequest\<close> object, whose \<open>_init\<close> does so on the
  next tick. The result is the store, the address of \<open>finalOptions\<close>, and the error or
  what the transport is called with.
\<close>

definition mainRequest_st ::
  "store_platform \<Rightarrow> store \<Rightarrow> addr \<Rightarrow> hval \<Rightarrow> hval \<Rightarrow> hval
     \<Rightarrow> store \<times> addr \<times> (error + hval \<times> addr)" where
  "mainRequest_st P st defaultOptions uri options callback =
     (let (opts, st) = gather_opts_st st uri options;
          callback = pick_callback_st options callback;
          (finalOptions, st) = alloc st (spread2 (h_entries st (HRef defaultOptions)) (h_entries st (HRef opts)))
      in case callback of
           HFun f \<Rightarrow>
             (let (st, r) = dispatch_st P st finalOptions in (st, finalOptions, r))
         | _ \<Rightarrow>
             (let (this_object, st) = alloc st [(''_options'', HRef finalOptions), (''_isPiped'', HBool False)];
                  (st, r) = dispatch_st P st finalOptions
              in (st, finalOptions, r)))"

text \<open>A verb shortcut: \<open>opts.method = method.toUpperCase(); return mainRequest(opts, callback);\<close>\<close>

definition verb_st ::
  "store_platform \<Rightarrow> store \<Rightarrow> addr \<Rightarrow> string \<Rightarrow> hval \<Rightarrow> hval \<Rightarrow> hval
     \<Rightarrow> store \<times> addr \<times> (error + hval \<times> addr)" where
  "verb_st P st defaultOptions m uri options callback =
     (let (opts, st) = gather_opts_st st uri options;
          callback = pick_callback_st options callback;
          st = write_prop st opts ''method'' (HStr (toUpperCase m))
      in mainRequest_st P st defaultOptions (HRef opts) callback HUndefined)"

text \<open>A store extends another when every object of the other is in it, unchanged.\<close>

definition preserves :: "store \<Rightarrow> store \<Rightarrow> bool" where
  "preserves st' st = (length st \<le> length st' \<and> take (length st) st' = st)"

text \<open>
  The invariant of the translation: the store still holds the objects of \<open>st0\<close>
  unchanged, and the object at \<open>fo\<close> and the one its \<open>headers\<close> property refers to were
  both created after \<open>st0\<close>.
\<close>

definition fresh_headers :: "store \<Rightarrow> store \<Rightarrow> addr \<Rightarrow> bool" where
  "fresh_headers st0 st fo =
     (preserves st st0 \<and> length st0 \<le> fo \<and> fo < length st
      \<and> (\<exists>hs. h_get st (HRef fo) ''headers'' = HRef hs \<and> length st0 \<le> hs))"

text \<open>Built-ins for the examples on stores; none of the examples depends on their results.\<close>

definition example_store_platform :: store_platform where
  "example_store_platform =
     \<lparr>st_to_string = (\<lambda>st v. case v of HStr s \<Rightarrow> s | _ \<Rightarrow> []),
      st_base64 = (\<lambda>s. s),
      st_stringify = (\<lambda>st v. HStr ''{}''),
      st_form = (\<lambda>st v. Inr []),
      st_with_qs = (\<lambda>st u qs. Inr [])\<rparr>"

section \<open>Properties of translateOptions\<close>

lemma opt_get_set_prop: "opt_get (set_prop es k v) k' = (if k' = k then v else opt_get es k')"
  by (simp add: opt_get_def set_prop_def update_conv')

lemma opt_get_auth_step:
  "k \<noteq> ''Authorization'' \<Longrightarrow> opt_get (auth_step env options hs) k = opt_get hs k"
  by (simp add: auth_step_def Let_def opt_get_set_prop)


lemma translateOptions_InrD:
  assumes "translateOptions env options jar = Inr (u', fo)"
  obtains m hs1 where
    "js_or (opt_get options ''method'') (JStr ''GET'') = JStr m"
    "truthy (js_or (opt_get options ''url'') (opt_get options ''uri''))"
    "jar_step env jar (js_or (opt_get options ''url'') (opt_get options ''uri''))
       (headers_copy env options) = Inr hs1"
    "body_step env options (auth_step env options hs1) = Inr (body fo, headers fo)"
    "qs_step env options (js_or (opt_get options ''url'') (opt_get options ''uri'')) = Inr u'"
    "http_method fo = toUpperCase m"
    "signal fo = timeout_signal options"
  using assms
  by (auto simp: translateOptions_def Let_def split: jsval.splits if_splits sum.splits prod.splits)


lemmas translate_defs =
  translateOptions_def headers_copy_def timeout_signal_def jar_step_def auth_step_def
  body_step_def qs_step_def qs_append_all_def js_or_def opt_get_def set_prop_def assign_def
  get_prop_def URLSearchParams_new_def



section \<open>Settling the promise view\<close>

lemma mainRequest_Returned:
  assumes "mainRequest env defaultOptions uri options callback = Returned d"
  shows "d = DropinRequest_new (spread2 defaultOptions (gather_opts env uri options)) JUndefined"
  using assms by (simp add: mainRequest_def Let_def split: if_splits)

text \<open>
  For a successful response that has a body, to a call without callback whose object is
  still pending: when a destination was attached with pipe before the response arrives,
  the body stream is piped into the object and the promise resolves with the transport
  response; with no destination attached nothing is piped and the promise resolves with
  the body as consumeBody parses it (whether or not the response has a body).
\<close>

lemma streaming_or_buffering_with_body:
  assumes "mainRequest env defaultOptions uri options callback = Returned d"
    and "translateOptions env (this_options d) JNull = Inr (u, fo)"
    and "fetch env u fo = Inr res"
    and "ok res"
  shows "(\<not> null_body res \<longrightarrow>
            this_promise (init env (pipe d destination)) = Resolved (Res res)
            \<and> inflow (init env (pipe d destination)) = Some (rbody res)
            \<and> destinations (init env (pipe d destination)) = [destination])
       \<and> this_promise (init env d)
           = (case consumeBody env res (this_options d) of
                Inr b \<Rightarrow> Resolved (Body b) | Inl err \<Rightarrow> Rejected err)
       \<and> inflow (init env d) = None"
proof -
  have d: "d = DropinRequest_new (spread2 defaultOptions (gather_opts env uri options)) JUndefined"
    using assms(1) by (rule mainRequest_Returned)
  have o: "this_options (pipe d destination) = this_options d"
    by (simp add: pipe_def)
  have p: "this_promise d = Pending" "\<not> this_isPiped d" "inflow d = None" "destinations d = []"
    by (simp_all add: d DropinRequest_new_def)
  have 1: "init env (pipe d destination) = settle env (pipe d destination) (Inr res)"
    using assms(2,3) by (simp add: init_def o)
  have 2: "init env d = settle env d (Inr res)"
    using assms(2,3) by (simp add: init_def)
  show ?thesis
    unfolding 1 2 using assms(4) p
    by (simp add: settle_def Let_def emit_def promiseResolver_def pipe_def fail_def
        promiseRejector_def split: sum.splits)
qed

lemma streaming_or_buffering_with_body_example:
  "mainRequest example_platform [] (Value (JStr ''http://h/'')) (Value JUndefined) (Value JUndefined)
     = Returned (DropinRequest_new [(''url'', JStr ''http://h/'')] JUndefined)
   \<and> this_promise (init example_platform (pipe (DropinRequest_new [(''url'', JStr ''http://h/'')] JUndefined) 7))
       = Resolved (Res \<lparr>status = 200, statusText = ''OK'', rheaders = [], rbody = Inr ''{}'', null_body = False\<rparr>)
   \<and> inflow (init example_platform (pipe (DropinRequest_new [(''url'', JStr ''http://h/'')] JUndefined) 7))
       = Some (Inr ''{}'')
   \<and> this_promise (init example_platform (DropinRequest_new [(''url'', JStr ''http://h/'')] JUndefined))
       = Resolved (Body (JStr ''{}''))"
proof -
  let ?d = "DropinRequest_new [(''url'', JStr ''http://h/'')] JUndefined"
  let ?res = "\<lparr>status = 200, statusText = ''OK'', rheaders = [], rbody = Inr ''{}'', null_body = False\<rparr>"
  let ?fo = "\<lparr>http_method = ''GET'', headers = [], body = JUndefined, signal = None\<rparr>"
  have m: "mainRequest example_platform [] (Value (JStr ''http://h/'')) (Value JUndefined) (Value JUndefined)
     = Returned ?d"
    by (simp add: mainRequest_def gather_opts_def pick_callback_def spread2_def assign_def set_prop_def)
  have o: "this_options ?d = [(''url'', JStr ''http://h/'')]"
    by (simp add: DropinRequest_new_def)
  have t: "translateOptions example_platform (this_options ?d) JNull = Inr (JStr ''http://h/'', ?fo)"
    unfolding o by (simp add: translate_defs example_platform_def toUpperCase_def upper_char_def)
  have f: "fetch example_platform (JStr ''http://h/'') ?fo = Inr ?res"
    by (simp add: example_platform_def)
  have k: "ok ?res" by (simp add: ok_def)
  have c: "consumeBody example_platform ?res (this_options ?d) = Inr (JStr ''{}'')"
    unfolding o by (simp add: consumeBody_def opt_get_def)
  from streaming_or_buffering_with_body [OF m t f k, of 7] m c show ?thesis by simp
qed

lemma streaming_or_buffering_jar:
  assumes "this_promise d = Pending" and "inflow d = None"
    and "store_cookies env (this_jar d) res u = None" and "ok res"
  shows "(\<not> null_body res \<longrightarrow>
            this_promise (settle_jar env (pipe d destination) u (Inr res)) = Resolved (Res res)
            \<and> inflow (settle_jar env (pipe d destination) u (Inr res)) = Some (rbody res))
       \<and> (null_body res \<longrightarrow>
            this_promise (settle_jar env (pipe d destination) u (Inr res))
              = Rejected (TypeError ''ERR_INVALID_ARG_TYPE''))
       \<and> (\<not> this_isPiped d \<longrightarrow>
            this_promise (settle_jar env d u (Inr res))
              = (case consumeBody env res (this_options d) of
                   Inr b \<Rightarrow> Resolved (Body b) | Inl err \<Rightarrow> Rejected err)
            \<and> inflow (settle_jar env d u (Inr res)) = None)"
  using assms
  by (simp add: settle_jar_def Let_def emit_def promiseResolver_def pipe_def fail_def
      promiseRejector_def split: sum.splits)

text \<open>
  C5, where the code departs from it: a successful response without body (status 204,
  \<open>res.body\<close> null), to a call without callback. With a destination attached before the
  response arrives, \<open>Readable.fromWeb(res.body)\<close> raises inside the response handler: the
  response event has been emitted, nothing is piped, and the promise is rejected with
  that TypeError, which is also emitted, where the claim has it resolve with the
  transport response. The same call with no destination resolves with the (empty) body.
\<close>

theorem piped_response_without_body_rejects:
  "mainRequest
     (example_platform\<lparr>fetch := \<lambda>u fo. Inr \<lparr>status = 204, statusText = ''No Content'', rheaders = [], rbody = Inr [], null_body = True\<rparr>\<rparr>)
     [] (Value (JStr ''http://h/'')) (Value JUndefined) (Value JUndefined)
     = Returned (DropinRequest_new [(''url'', JStr ''http://h/'')] JUndefined)
   \<and> ok \<lparr>status = 204, statusText = ''No Content'', rheaders = [], rbody = Inr [], null_body = True\<rparr>
   \<and> this_promise (init
        (example_platform\<lparr>fetch := \<lambda>u fo. Inr \<lparr>status = 204, statusText = ''No Content'', rheaders = [], rbody = Inr [], null_body = True\<rparr>\<rparr>)
        (pipe (DropinRequest_new [(''url'', JStr ''http://h/'')] JUndefined) 7))
     = Rejected (TypeError ''ERR_INVALID_ARG_TYPE'')
   \<and> emitted (init
        (example_platform\<lparr>fetch := \<lambda>u fo. Inr \<lparr>status = 204, statusText = ''No Content'', rheaders = [], rbody = Inr [], null_body = True\<rparr>\<rparr>)
        (pipe (DropinRequest_new [(''url'', JStr ''http://h/'')] JUndefined) 7))
     = [ResponseEvent \<lparr>status = 204, statusText = ''No Content'', rheaders = [], rbody = Inr [], null_body = True\<rparr>,
        ErrorEvent (TypeError ''ERR_INVALID_ARG_TYPE'')]
   \<and> inflow (init
        (example_platform\<lparr>fetch := \<lambda>u fo. Inr \<lparr>status = 204, statusText = ''No Content'', rheaders = [], rbody = Inr [], null_body = True\<rparr>\<rparr>)
        (pipe (DropinRequest_new [(''url'', JStr ''http://h/'')] JUndefined) 7))
     = None
   \<and> this_promise (init
        (example_platform\<lparr>fetch := \<lambda>u fo. Inr \<lparr>status = 204, statusText = ''No Content'', rheaders = [], rbody = Inr [], null_body = True\<rparr>\<rparr>)
        (DropinRequest_new [(''url'', JStr ''http://h/'')] JUndefined))
     = Resolved (Body (JStr []))"
proof -
  let ?res = "\<lparr>status = 204, statusText = ''No Content'', rheaders = [], rbody = Inr [], null_body = True\<rparr>"
  let ?env = "example_platform\<lparr>fetch := \<lambda>u fo. Inr ?res\<rparr>"
  let ?o = "[(''url'', JStr ''http://h/'')]"
  let ?fo = "\<lparr>http_method = ''GET'', headers = [], body = JUndefined, signal = None\<rparr>"
  let ?d = "DropinRequest_new ?o JUndefined"
  have t: "translateOptions ?env ?o JNull = Inr (JStr ''http://h/'', ?fo)"
    by (simp add: translate_defs example_platform_def toUpperCase_def upper_char_def)
  have c: "consumeBody ?env ?res ?o = Inr (JStr [])"
    by (simp add: consumeBody_def opt_get_def)
  have 1: "mainRequest ?env [] (Value (JStr ''http://h/'')) (Value JUndefined) (Value JUndefined)
     = Returned ?d"
    by (simp add: mainRequest_def gather_opts_def pick_callback_def spread2_def assign_def set_prop_def)
  have 2: "ok ?res" by (simp add: ok_def)
  have p: "init ?env (pipe ?d 7)
     = \<lparr>this_options = ?o, this_jar = JUndefined, this_isPiped = True,
        this_promise = Rejected (TypeError ''ERR_INVALID_ARG_TYPE''),
        emitted = [ResponseEvent ?res, ErrorEvent (TypeError ''ERR_INVALID_ARG_TYPE'')],
        destinations = [7], inflow = None\<rparr>"
    by (simp add: init_def pipe_def DropinRequest_new_def t settle_def emit_def ok_def fail_def
        promiseRejector_def)
  have 3: "this_promise (init ?env ?d) = Resolved (Body (JStr []))"
    by (simp add: init_def DropinRequest_new_def t settle_def emit_def ok_def c promiseResolver_def)
  from 1 2 3 show ?thesis unfolding p by simp
qed

section \<open>Bodies, status codes and errors\<close>

lemma consumeBody_json:
  assumes "truthy (opt_get options ''json'')" and "opt_get options ''encoding'' \<noteq> JNull"
    and "rbody res = Inr text"
  shows "consumeBody env res options
           = Inr (case JSON_parse env text of Some v \<Rightarrow> v | None \<Rightarrow> JStr text)"
  using assms by (simp add: consumeBody_def split: option.splits)

text \<open>
  C7: with the json option set and the encoding not null, a body that was read as text
  is parsed as JSON, and when the parse fails the text itself is the body. The parse
  never decides the outcome: in callback mode a status below 400 gives no error and that
  body, in promise mode an ok status (not piped) resolves with that body.
\<close>

theorem malformed_json_is_not_a_failure:
  assumes "truthy (opt_get options ''json'')" and "opt_get options ''encoding'' \<noteq> JNull"
    and "rbody res = Inr text"
  shows "consumeBody env res options
           = Inr (case JSON_parse env text of Some v \<Rightarrow> v | None \<Rightarrow> JStr text)
       \<and> (translateOptions env options JNull = Inr (u, fo) \<and> fetch env u fo = Inr res
            \<and> status res < 400 \<longrightarrow>
            cb_error (callback_path env options) = None
            \<and> cb_body (callback_path env options)
                = (case JSON_parse env text of Some v \<Rightarrow> v | None \<Rightarrow> JStr text))
       \<and> (this_options d = options \<and> this_promise d = Pending \<and> \<not> this_isPiped d \<and> ok res \<longrightarrow>
            this_promise (settle env d (Inr res))
              = Resolved (Body (case JSON_parse env text of Some v \<Rightarrow> v | None \<Rightarrow> JStr text)))"
proof -
  note c = consumeBody_json [OF assms, of env]
  have "cb_error (callback_path env options) = None
      \<and> cb_body (callback_path env options)
          = (case JSON_parse env text of Some v \<Rightarrow> v | None \<Rightarrow> JStr text)"
    if "translateOptions env options JNull = Inr (u, fo)" "fetch env u fo = Inr res" "status res < 400"
    using that c by (simp add: callback_path_def Let_def)
  moreover have "this_promise (settle env d (Inr res))
      = Resolved (Body (case JSON_parse env text of Some v \<Rightarrow> v | None \<Rightarrow> JStr text))"
    if "this_options d = options" "this_promise d = Pending" "\<not> this_isPiped d" "ok res"
    using that c by (simp add: settle_def Let_def emit_def promiseResolver_def)
  ultimately show ?thesis using c by blast
qed

theorem malformed_json_is_not_a_failure_witness:
  "consumeBody example_platform
     \<lparr>status = 200, statusText = ''OK'', rheaders = [], rbody = Inr ''{bad'', null_body = False\<rparr>
     [(''url'', JStr ''http://h/''), (''json'', JBool True)] = Inr (JStr ''{bad'')
   \<and> cb_error (callback_path
        (example_platform\<lparr>fetch := \<lambda>u fo. Inr \<lparr>status = 200, statusText = ''OK'', rheaders = [], rbody = Inr ''{bad'', null_body = False\<rparr>\<rparr>)
        [(''url'', JStr ''http://h/''), (''json'', JBool True)]) = None
   \<and> cb_body (callback_path
        (example_platform\<lparr>fetch := \<lambda>u fo. Inr \<lparr>status = 200, statusText = ''OK'', rheaders = [], rbody = Inr ''{bad'', null_body = False\<rparr>\<rparr>)
        [(''url'', JStr ''http://h/''), (''json'', JBool True)]) = JStr ''{bad''
   \<and> this_promise (settle example_platform
        (DropinRequest_new [(''url'', JStr ''http://h/''), (''json'', JBool True)] JUndefined)
        (Inr \<lparr>status = 200, statusText = ''OK'', rheaders = [], rbody = Inr ''{bad'', null_body = False\<rparr>))
       = Resolved (Body (JStr ''{bad''))"
proof -
  let ?res = "\<lparr>status = 200, statusText = ''OK'', rheaders = [], rbody = Inr ''{bad'', null_body = False\<rparr>"
  let ?o = "[(''url'', JStr ''http://h/''), (''json'', JBool True)]"
  let ?env = "example_platform\<lparr>fetch := \<lambda>u fo. Inr ?res\<rparr>"
  let ?fo = "\<lparr>http_method = ''GET'', headers = [], body = JUndefined, signal = None\<rparr>"
  let ?d = "DropinRequest_new ?o JUndefined"
  have j: "truthy (opt_get ?o ''json'')" by (simp add: opt_get_def)
  have e: "opt_get ?o ''encoding'' \<noteq> JNull" by (simp add: opt_get_def)
  have r: "rbody ?res = Inr ''{bad''" by simp
  have t: "translateOptions ?env ?o JNull = Inr (JStr ''http://h/'', ?fo)"
    by (simp add: translate_defs example_platform_def toUpperCase_def upper_char_def)
  have f: "fetch ?env (JStr ''http://h/'') ?fo = Inr ?res" by simp
  have p1: "JSON_parse example_platform ''{bad'' = None" by (simp add: example_platform_def)
  have p2: "JSON_parse ?env ''{bad'' = None" by (simp add: example_platform_def)
  have d: "this_options ?d = ?o" "this_promise ?d = Pending" "\<not> this_isPiped ?d"
    by (simp_all add: DropinRequest_new_def)
  have k: "ok ?res" "status ?res < 400" by (simp_all add: ok_def)
  from malformed_json_is_not_a_failure [OF j e r, of example_platform "JStr ''http://h/''" ?fo ?d]
    d k p1
  have a: "consumeBody example_platform ?res ?o = Inr (JStr ''{bad'')"
          "this_promise (settle example_platform ?d (Inr ?res)) = Resolved (Body (JStr ''{bad''))"
    by simp_all
  from malformed_json_is_not_a_failure [OF j e r, of ?env "JStr ''http://h/''" ?fo ?d]
    t f k p2
  have b: "cb_error (callback_path ?env ?o) = None" "cb_body (callback_path ?env ?o) = JStr ''{bad''"
    by simp_all
  from a b show ?thesis by simp
qed

lemma promise_success_iff_ok:
  assumes "this_promise d = Pending" and "\<not> this_isPiped d"
    and "consumeBody env res (this_options d) = Inr b"
  shows "this_promise (settle env d (Inr res))
           = (if ok res then Resolved (Body b) else Rejected (http_error res b (this_options d)))"
  using assms
  by (simp add: settle_def Let_def emit_def promiseResolver_def promiseRejector_def fail_def)

lemma callback_success_iff_below_400:
  assumes "translateOptions env options JNull = Inr (u, fo)" and "fetch env u fo = Inr res"
    and "consumeBody env res options = Inr b"
  shows "cb_error (callback_path env options) = None \<longleftrightarrow> status res < 400"
  using assms by (simp add: callback_path_def Let_def)

lemma callback_jar_success_iff_ok:
  assumes "translateOptions env options jar = Inr (u, fo)" and "fetch env u fo = Inr res"
    and "store_cookies env jar res u = None"
    and "consumeBody env res options = Inr b"
  shows "cb_error (callback_path_jar env options jar) = None \<longleftrightarrow> ok res"
  using assms by (simp add: callback_path_jar_def Let_def)

text \<open>
  C1, where the code departs from it: a completed response with status 399. The call
  with a callback reports success (no error, the response and the body), while the same
  call without a callback has its promise rejected with the HTTP error, because the
  promise path tests \<open>res.ok\<close> (200 to 299) where the callback path tests
  \<open>statusCode >= 400\<close>.
\<close>

theorem status_399_promise_path_rejects:
  "mainRequest
     (example_platform\<lparr>fetch := \<lambda>u fo. Inr \<lparr>status = 399, statusText = ''Custom'', rheaders = [], rbody = Inr ''hi'', null_body = False\<rparr>\<rparr>)
     [] (Value (JStr ''http://h/'')) (Function 0) (Value JUndefined)
     = Called \<lparr>cb_error = None,
               cb_response = Some \<lparr>statusCode = 399, lheaders = [], lbody = JStr ''hi''\<rparr>,
               cb_body = JStr ''hi''\<rparr>
   \<and> mainRequest
     (example_platform\<lparr>fetch := \<lambda>u fo. Inr \<lparr>status = 399, statusText = ''Custom'', rheaders = [], rbody = Inr ''hi'', null_body = False\<rparr>\<rparr>)
     [] (Value (JStr ''http://h/'')) (Value JUndefined) (Value JUndefined)
     = Returned (DropinRequest_new [(''url'', JStr ''http://h/'')] JUndefined)
   \<and> this_promise (init
        (example_platform\<lparr>fetch := \<lambda>u fo. Inr \<lparr>status = 399, statusText = ''Custom'', rheaders = [], rbody = Inr ''hi'', null_body = False\<rparr>\<rparr>)
        (DropinRequest_new [(''url'', JStr ''http://h/'')] JUndefined))
     = Rejected (HttpError ''HTTP Error: 399 Custom'' 399
                  \<lparr>status = 399, statusText = ''Custom'', rheaders = [], rbody = Inr ''hi'', null_body = False\<rparr>
                  (JStr ''hi'') [(''url'', JStr ''http://h/'')])"
proof -
  let ?res = "\<lparr>status = 399, statusText = ''Custom'', rheaders = [], rbody = Inr ''hi'', null_body = False\<rparr>"
  let ?env = "example_platform\<lparr>fetch := \<lambda>u fo. Inr ?res\<rparr>"
  let ?o = "[(''url'', JStr ''http://h/'')]"
  let ?fo = "\<lparr>http_method = ''GET'', headers = [], body = JUndefined, signal = None\<rparr>"
  have t: "translateOptions ?env ?o JNull = Inr (JStr ''http://h/'', ?fo)"
    by (simp add: translate_defs example_platform_def toUpperCase_def upper_char_def)
  have c: "consumeBody ?env ?res ?o = Inr (JStr ''hi'')"
    by (simp add: consumeBody_def opt_get_def)
  have g: "gather_opts ?env (Value (JStr ''http://h/'')) a = ?o" if "\<not> is_object a" for a
    using that by (simp add: gather_opts_def set_prop_def Let_def)
  have s: "spread2 [] ?o = ?o"
    by (simp add: spread2_def assign_def)
  have 1: "mainRequest ?env [] (Value (JStr ''http://h/'')) (Function 0) (Value JUndefined)
     = Called \<lparr>cb_error = None, cb_response = Some \<lparr>statusCode = 399, lheaders = [], lbody = JStr ''hi''\<rparr>,
               cb_body = JStr ''hi''\<rparr>"
    by (simp add: mainRequest_def g s pick_callback_def callback_path_def t c)
  have 2: "mainRequest ?env [] (Value (JStr ''http://h/'')) (Value JUndefined) (Value JUndefined)
     = Returned (DropinRequest_new ?o JUndefined)"
    by (simp add: mainRequest_def g s pick_callback_def)
  have 3: "this_promise (init ?env (DropinRequest_new ?o JUndefined))
     = Rejected (HttpError ''HTTP Error: 399 Custom'' 399 ?res (JStr ''hi'') ?o)"
    by (simp add: init_def DropinRequest_new_def t settle_def emit_def ok_def c fail_def
        promiseRejector_def http_error_def digits.simps char_of_def bit_iff_odd)
  from 1 2 3 show ?thesis by simp
qed

section \<open>Where errors go\<close>

lemma translateOptions_missing_url:
  assumes "\<not> truthy (js_or (opt_get options ''url'') (opt_get options ''uri''))"
    and "js_or (opt_get options ''method'') (JStr ''GET'') = JStr m"
  shows "translateOptions env options jar = Inl (Error ''URL is required.'')"
  using assms by (simp add: translateOptions_def Let_def)

text \<open>
  C2, as stated, fails: a call without callback and without URL returns its object
  normally, with the promise pending and nothing emitted; the missing-URL error arrives
  when \<open>_init\<close> runs on the next tick, as the rejection of the promise.
\<close>

theorem missing_url_is_not_thrown_by_the_constructor:
  "mainRequest example_platform [] (Value (JObj [])) (Value JUndefined) (Value JUndefined)
     = Returned (DropinRequest_new [] JUndefined)
   \<and> this_promise (DropinRequest_new [] JUndefined) = Pending
   \<and> emitted (DropinRequest_new [] JUndefined) = []
   \<and> this_promise (init example_platform (DropinRequest_new [] JUndefined))
       = Rejected (Error ''URL is required.'')"
  by (simp add: mainRequest_def gather_opts_def pick_callback_def spread2_def assign_def
      DropinRequest_new_def init_def translate_defs fail_def emit_def promiseRejector_def)

text \<open>
  C2, amended: when the merged options have no URL (and a usable method), a call without
  callback returns a pending object, and \<open>_init\<close> rejects its promise with the missing-URL
  error and emits that error; a call with a callback returns nothing and invokes the
  callback with that error as first argument, null as response and null as body.
\<close>

theorem missing_url_delivery:
  assumes "finalOptions = spread2 defaultOptions (gather_opts env uri options)"
    and "\<not> truthy (js_or (opt_get finalOptions ''url'') (opt_get finalOptions ''uri''))"
    and "js_or (opt_get finalOptions ''method'') (JStr ''GET'') = JStr m"
  shows "(\<not> is_function (pick_callback options callback) \<longrightarrow>
            mainRequest env defaultOptions uri options callback
              = Returned (DropinRequest_new finalOptions JUndefined)
            \<and> this_promise (DropinRequest_new finalOptions JUndefined) = Pending
            \<and> this_promise (init env (DropinRequest_new finalOptions JUndefined))
                = Rejected (Error ''URL is required.'')
            \<and> emitted (init env (DropinRequest_new finalOptions JUndefined))
                = [ErrorEvent (Error ''URL is required.'')])
       \<and> (is_function (pick_callback options callback) \<longrightarrow>
            mainRequest env defaultOptions uri options callback
              = Called \<lparr>cb_error = Some (Error ''URL is required.''), cb_response = None,
                        cb_body = JNull\<rparr>)"
proof -
  have t: "translateOptions env finalOptions JNull = Inl (Error ''URL is required.'')"
    using assms(2,3) by (rule translateOptions_missing_url)
  have o: "this_options (DropinRequest_new finalOptions JUndefined) = finalOptions"
    by (simp add: DropinRequest_new_def)
  have i: "init env (DropinRequest_new finalOptions JUndefined)
             = fail (DropinRequest_new finalOptions JUndefined) (Error ''URL is required.'')"
    by (simp add: init_def o t)
  show ?thesis
    unfolding i
    by (simp add: mainRequest_def Let_def assms(1) [symmetric] callback_path_def t
        DropinRequest_new_def fail_def emit_def promiseRejector_def)
qed

theorem missing_url_delivery_witness:
  "mainRequest example_platform [(''json'', JBool True)] (Value (JObj [])) (Function 0) (Value JUndefined)
     = Called \<lparr>cb_error = Some (Error ''URL is required.''), cb_response = None, cb_body = JNull\<rparr>
   \<and> mainRequest example_platform [(''json'', JBool True)] (Value (JObj [])) (Value JUndefined) (Value JUndefined)
     = Returned (DropinRequest_new [(''json'', JBool True)] JUndefined)
   \<and> this_promise (init example_platform (DropinRequest_new [(''json'', JBool True)] JUndefined))
     = Rejected (Error ''URL is required.'')"
proof -
  let ?f = "[(''json'', JBool True)]"
  have g: "gather_opts example_platform (Value (JObj [])) a = []" if "\<not> is_object a" for a
    using that by (simp add: gather_opts_def assign_def Let_def)
  have f1: "?f = spread2 ?f (gather_opts example_platform (Value (JObj [])) (Function 0))"
    by (simp add: g spread2_def assign_def)
  have f2: "?f = spread2 ?f (gather_opts example_platform (Value (JObj [])) (Value JUndefined))"
    by (simp add: g spread2_def assign_def)
  have u: "\<not> truthy (js_or (opt_get ?f ''url'') (opt_get ?f ''uri''))"
    by (simp add: js_or_def opt_get_def)
  have m: "js_or (opt_get ?f ''method'') (JStr ''GET'') = JStr ''GET''"
    by (simp add: js_or_def opt_get_def)
  have c1: "is_function (pick_callback (Function 0) (Value JUndefined))"
    by (simp add: pick_callback_def)
  have c2: "\<not> is_function (pick_callback (Value JUndefined) (Value JUndefined))"
    by (simp add: pick_callback_def)
  from missing_url_delivery [OF f1 u m, of "Value JUndefined"] c1
       missing_url_delivery [OF f2 u m, of "Value JUndefined"] c2
  show ?thesis by simp
qed

text \<open>
  C4, as stated, fails: when the transport call itself fails there is no response, and
  the callback receives null as its second argument.
\<close>

theorem network_failure_passes_null_response:
  "mainRequest (example_platform\<lparr>fetch := \<lambda>u fo. Inl (TypeError ''fetch failed'')\<rparr>)
     [] (Value (JStr ''http://h/'')) (Function 0) (Value JUndefined)
     = Called \<lparr>cb_error = Some (TypeError ''fetch failed''), cb_response = None, cb_body = JNull\<rparr>"
  by (simp add: mainRequest_def gather_opts_def pick_callback_def spread2_def assign_def
      callback_path_def translate_defs example_platform_def toUpperCase_def upper_char_def)

text \<open>
  C4, amended: in callback mode the response object is built and passed whenever the
  transport call produced a response, whatever the status and also when reading the body
  fails; the second argument is null when \<open>translateOptions\<close> raises (a missing URL, for
  one) and when the transport call fails. Both modules agree, the jar-enabled one passing
  null also when storing the cookies fails.
\<close>

theorem callback_response_argument:
  "(translateOptions env options JNull = Inr (u, fo) \<and> fetch env u fo = Inr res \<longrightarrow>
      (\<exists>r. cb_response (callback_path env options) = Some r
            \<and> statusCode r = status res \<and> lheaders r = rheaders res))
   \<and> (translateOptions env options JNull = Inl err \<longrightarrow>
        callback_path env options = \<lparr>cb_error = Some err, cb_response = None, cb_body = JNull\<rparr>)
   \<and> (translateOptions env options JNull = Inr (u, fo) \<and> fetch env u fo = Inl err \<longrightarrow>
        callback_path env options = \<lparr>cb_error = Some err, cb_response = None, cb_body = JNull\<rparr>)
   \<and> (translateOptions env options jar = Inr (u, fo) \<and> fetch env u fo = Inr res
        \<and> store_cookies env jar res u = None \<longrightarrow>
      (\<exists>r. cb_response (callback_path_jar env options jar) = Some r
            \<and> statusCode r = status res \<and> lheaders r = rheaders res))
   \<and> (translateOptions env options jar = Inl err \<longrightarrow>
        callback_path_jar env options jar = \<lparr>cb_error = Some err, cb_response = None, cb_body = JNull\<rparr>)
   \<and> (translateOptions env options jar = Inr (u, fo) \<and> fetch env u fo = Inl err \<longrightarrow>
        callback_path_jar env options jar = \<lparr>cb_error = Some err, cb_response = None, cb_body = JNull\<rparr>)"
  by (auto simp: callback_path_def callback_path_jar_def Let_def split: sum.splits)

theorem callback_response_argument_witness:
  "cb_response (callback_path
      (example_platform\<lparr>fetch := \<lambda>u fo. Inr \<lparr>status = 404, statusText = ''Not Found'', rheaders = [], rbody = Inr '''', null_body = False\<rparr>\<rparr>)
      [(''url'', JStr ''http://h/'')])
     = Some \<lparr>statusCode = 404, lheaders = [], lbody = JStr ''''\<rparr>
   \<and> cb_error (callback_path
      (example_platform\<lparr>fetch := \<lambda>u fo. Inr \<lparr>status = 404, statusText = ''Not Found'', rheaders = [], rbody = Inr '''', null_body = False\<rparr>\<rparr>)
      [(''url'', JStr ''http://h/'')]) \<noteq> None
   \<and> (\<exists>r. cb_response (callback_path
      (example_platform\<lparr>fetch := \<lambda>u fo. Inr \<lparr>status = 404, statusText = ''Not Found'', rheaders = [], rbody = Inr '''', null_body = False\<rparr>\<rparr>)
      [(''url'', JStr ''http://h/'')]) = Some r \<and> statusCode r = 404)"
proof -
  let ?res = "\<lparr>status = 404, statusText = ''Not Found'', rheaders = [], rbody = Inr '''', null_body = False\<rparr>"
  let ?env = "example_platform\<lparr>fetch := \<lambda>u fo. Inr ?res\<rparr>"
  let ?o = "[(''url'', JStr ''http://h/'')]"
  let ?fo = "\<lparr>http_method = ''GET'', headers = [], body = JUndefined, signal = None\<rparr>"
  have t: "translateOptions ?env ?o JNull = Inr (JStr ''http://h/'', ?fo)"
    by (simp add: translate_defs example_platform_def toUpperCase_def upper_char_def)
  have f: "fetch ?env (JStr ''http://h/'') ?fo = Inr ?res" by simp
  have c: "consumeBody ?env ?res ?o = Inr (JStr '''')"
    by (simp add: consumeBody_def opt_get_def)
  have v: "callback_path ?env ?o
     = \<lparr>cb_error = Some (HttpErrorCb ''HTTP Error 404'' \<lparr>statusCode = 404, lheaders = [], lbody = JStr ''''\<rparr>),
        cb_response = Some \<lparr>statusCode = 404, lheaders = [], lbody = JStr ''''\<rparr>, cb_body = JStr ''''\<rparr>"
    by (simp add: callback_path_def t c digits.simps char_of_def bit_iff_odd Let_def)
  from callback_response_argument [of ?env ?o "JStr ''http://h/''" ?fo ?res] t f v
  show ?thesis by simp
qed

text \<open>
  In the jar-enabled module a failure while storing the response cookies happens before
  \<open>responseForCallback\<close> is assigned, so the callback receives null there too.
\<close>

lemma callback_jar_cookie_store_failure:
  assumes "translateOptions env options jar = Inr (u, fo)" and "fetch env u fo = Inr res"
    and "store_cookies env jar res u = Some err"
  shows "callback_path_jar env options jar
           = \<lparr>cb_error = Some err, cb_response = None, cb_body = JNull\<rparr>"
  using assms by (simp add: callback_path_jar_def)

section \<open>The query string\<close>

lemma qs_append_all_snoc:
  "qs_append_all (es @ [(k, v)]) u = searchParams_append (qs_append_all es u) k (js_to_string v)"
  by (simp add: qs_append_all_def)

lemma qs_append_all_params:
  "u_params (qs_append_all es u) = u_params u @ map (\<lambda>(k, v). (k, js_to_string v)) es"
proof (induction es rule: rev_induct)
  case Nil
  show ?case by (simp add: qs_append_all_def)
next
  case (snoc e es)
  obtain k v where e: "e = (k, v)" by (cases e)
  show ?case
    unfolding e qs_append_all_snoc using snoc
    by (simp add: searchParams_append_def Let_def)
qed

lemma qs_append_all_frame:
  "u_prefix (qs_append_all es u) = u_prefix u \<and> u_fragment (qs_append_all es u) = u_fragment u"
proof (induction es rule: rev_induct)
  case Nil
  show ?case by (simp add: qs_append_all_def)
next
  case (snoc e es)
  obtain k v where e: "e = (k, v)" by (cases e)
  show ?case
    unfolding e qs_append_all_snoc using snoc
    by (simp add: searchParams_append_def Let_def)
qed

lemma join_nonempty: "xs \<noteq> [] \<Longrightarrow> hd xs \<noteq> [] \<Longrightarrow> join sep xs \<noteq> []"
  by (induction sep xs rule: join.induct) auto

lemma urlencoded_serialize_nonempty: "ps \<noteq> [] \<Longrightarrow> urlencoded_serialize ps \<noteq> []"
  unfolding urlencoded_serialize_def
  by (rule join_nonempty) (auto simp: hd_map split: prod.splits)

lemma qs_append_all_query:
  assumes "es \<noteq> []"
  shows "u_query (qs_append_all es u)
           = Some (urlencoded_serialize (u_params u @ map (\<lambda>(k, v). (k, js_to_string v)) es))"
proof -
  from assms obtain es' e where es: "es = es' @ [e]"
    by (metis rev_exhaust)
  obtain k v where e: "e = (k, v)" by (cases e)
  have "u_params (qs_append_all es' u) @ [(k, js_to_string v)]
          = u_params u @ map (\<lambda>(k, v). (k, js_to_string v)) es"
    by (simp add: qs_append_all_params es e)
  then show ?thesis
    unfolding es e qs_append_all_snoc
    by (simp add: searchParams_append_def Let_def urlencoded_serialize_nonempty)
qed

text \<open>
  C8: when the options carry a (truthy) qs and translateOptions succeeds, the URL was
  parsed, the parameter list of the result is the list already in the URL followed by
  the entries of qs in order, each value through String (so an existing key keeps its
  value and the duplicate is a further entry), the rest of the URL is kept, and, when qs
  has entries, the query string is the form-urlencoded serialization of that whole list.
\<close>

theorem qs_entries_are_appended:
  assumes "translateOptions env options jar = Inr (u', fo)"
    and "truthy (opt_get options ''qs'')"
  shows "\<exists>urlObj final.
           new_URL env (js_to_string (js_or (opt_get options ''url'') (opt_get options ''uri''))) = Some urlObj
         \<and> u' = JStr (url_toString final)
         \<and> u_params final
             = u_params urlObj
               @ map (\<lambda>(k, v). (k, js_to_string v)) (own_entries env (opt_get options ''qs''))
         \<and> u_prefix final = u_prefix urlObj \<and> u_fragment final = u_fragment urlObj
         \<and> u_query final
             = (if own_entries env (opt_get options ''qs'') = [] then u_query urlObj
                else Some (urlencoded_serialize (u_params final)))"
proof -
  let ?u = "js_or (opt_get options ''url'') (opt_get options ''uri'')"
  let ?es = "own_entries env (opt_get options ''qs'')"
  from assms(1) have q: "qs_step env options ?u = Inr u'"
    by (rule translateOptions_InrD)
  with assms(2) obtain urlObj where
    n: "new_URL env (js_to_string ?u) = Some urlObj" and
    u': "u' = JStr (url_toString (qs_append_all ?es urlObj))"
    by (auto simp: qs_step_def split: option.splits)
  have "u_query (qs_append_all ?es urlObj)
          = (if ?es = [] then u_query urlObj
             else Some (urlencoded_serialize (u_params (qs_append_all ?es urlObj))))"
  proof (cases "?es = []")
    case True
    then show ?thesis by (simp add: qs_append_all_def)
  next
    case False
    then show ?thesis by (simp add: qs_append_all_query qs_append_all_params)
  qed
  with n u' show ?thesis
    using qs_append_all_params [of ?es urlObj] qs_append_all_frame [of ?es urlObj] by blast
qed

theorem qs_entries_are_appended_witness:
  "translateOptions
     (example_platform\<lparr>new_URL := \<lambda>s. if s = ''https://h/get?a=0''
        then Some \<lparr>u_prefix = ''https://h/get'', u_query = Some ''a=0'', u_params = [(''a'', ''0'')], u_fragment = []\<rparr>
        else None\<rparr>)
     [(''url'', JStr ''https://h/get?a=0''),
      (''qs'', JObj [(''a'', JNum 1), (''b'', JStr ''hello world&'')])] JNull
     = Inr (JStr ''https://h/get?a=0&a=1&b=hello+world%26'',
            \<lparr>http_method = ''GET'', headers = [], body = JUndefined, signal = None\<rparr>)
   \<and> (\<exists>urlObj final.
         urlObj = \<lparr>u_prefix = ''https://h/get'', u_query = Some ''a=0'', u_params = [(''a'', ''0'')], u_fragment = []\<rparr>
       \<and> ''https://h/get?a=0&a=1&b=hello+world%26'' = url_toString final
       \<and> u_params final = u_params urlObj @ [(''a'', ''1''), (''b'', ''hello world&'')])"
proof -
  let ?env = "example_platform\<lparr>new_URL := \<lambda>s. if s = ''https://h/get?a=0''
        then Some \<lparr>u_prefix = ''https://h/get'', u_query = Some ''a=0'', u_params = [(''a'', ''0'')], u_fragment = []\<rparr>
        else None\<rparr>"
  let ?o = "[(''url'', JStr ''https://h/get?a=0''),
      (''qs'', JObj [(''a'', JNum 1), (''b'', JStr ''hello world&'')])]"
  have e: "urlencoded_serialize [(''a'', ''0''), (''a'', ''1''), (''b'', ''hello world&'')]
             = ''a=0&a=1&b=hello+world%26''"
    by code_simp
  have t: "translateOptions ?env ?o JNull
     = Inr (JStr ''https://h/get?a=0&a=1&b=hello+world%26'',
            \<lparr>http_method = ''GET'', headers = [], body = JUndefined, signal = None\<rparr>)"
    by (simp add: translate_defs example_platform_def toUpperCase_def upper_char_def
        searchParams_append_def url_toString_def e show_int_def digits.simps char_of_def bit_iff_odd
        Let_def urlencoded_serialize_nonempty)
  have q: "truthy (opt_get ?o ''qs'')" by (simp add: opt_get_def)
  from qs_entries_are_appended [OF t q]
  have "\<exists>final. ''https://h/get?a=0&a=1&b=hello+world%26'' = url_toString final
          \<and> u_params final = [(''a'', ''0''), (''a'', ''1''), (''b'', ''hello world&'')]"
    by (auto simp: js_or_def opt_get_def show_int_def digits.simps char_of_def bit_iff_odd)
  with t show ?thesis by simp
qed

section \<open>The body branches\<close>

lemma JSON_stringify_defined: "v \<noteq> JUndefined \<Longrightarrow> \<exists>s. JSON_stringify env v = Some s"
  by (cases v) simp_all

lemma headers_before_body:
  assumes "jar_step env jar u hs = Inr hs1"
    and "k \<noteq> ''Cookie''" and "k \<noteq> ''Authorization''"
  shows "opt_get (auth_step env options hs1) k = opt_get hs k"
proof -
  have "opt_get hs1 k = opt_get hs k"
    using assms(1,2)
    by (auto simp: jar_step_def opt_get_set_prop split: if_splits jsval.splits sum.splits)
  with assms(3) show ?thesis by (simp add: opt_get_auth_step)
qed

text \<open>
  C3, as stated, fails. In the class-style module the form branch comes before the json
  branch and a Content-Type supplied by the caller is kept. In \<open>translateOptions\<close> an
  Accept header that is present but empty is replaced, and an empty raw body is dropped
  rather than passed through.
\<close>

theorem body_branch_counterexample:
  "fetchWrapper_headers_body example_platform []
     [(''url'', JStr ''http://h/''), (''json'', JBool True), (''body'', JObj []),
      (''form'', JObj [(''b'', JStr ''2'')]), (''headers'', JObj [(''Content-Type'', JStr ''text/plain'')])]
     = Inr ([(''Content-Type'', JStr ''text/plain'')], ParamsBody [(''b'', ''2'')])
   \<and> fetchWrapper_headers_body example_platform []
     [(''url'', JStr ''http://h/''), (''json'', JBool True), (''body'', JObj []),
      (''headers'', JObj [(''Content-Type'', JStr ''text/plain'')])]
     = Inr ([(''Content-Type'', JStr ''text/plain'')], ValueBody (JStr ''{}''))
   \<and> translateOptions example_platform
     [(''url'', JStr ''http://h/''), (''json'', JBool True), (''body'', JObj []),
      (''headers'', JObj [(''Accept'', JStr [])])] JNull
     = Inr (JStr ''http://h/'',
            \<lparr>http_method = ''GET'',
             headers = [(''Accept'', JStr ''application/json''), (''Content-Type'', JStr ''application/json'')],
             body = JStr ''{}'', signal = None\<rparr>)
   \<and> translateOptions example_platform
     [(''url'', JStr ''http://h/''), (''method'', JStr ''POST''), (''body'', JStr [])] JNull
     = Inr (JStr ''http://h/'',
            \<lparr>http_method = ''POST'', headers = [], body = JUndefined, signal = None\<rparr>)"
  by (simp add: fetchWrapper_headers_body_def translate_defs example_platform_def
      toUpperCase_def upper_char_def spread2_def no_content_type_def)

text \<open>
  C3, amended: in \<open>translateOptions\<close> (with or without jars) exactly one of the following
  applies to the outgoing headers and body, in this order. (a) A truthy json with a body
  that is not undefined: the body is its JSON text, Content-Type is application/json
  whatever the caller supplied, and Accept is application/json unless the caller's Accept
  is truthy (present and non-empty), which is kept. (b) Otherwise a truthy form: the body
  is its form-urlencoded text, Content-Type is application/x-www-form-urlencoded whatever
  the caller supplied, Accept is the caller's. (c) Otherwise a truthy body is passed as
  it is, a falsy one sets no body, and neither Content-Type nor Accept is touched.
\<close>

theorem body_precedence:
  assumes "translateOptions env options jar = Inr (u', fo)"
  shows "(truthy (opt_get options ''json'') \<and> opt_get options ''body'' \<noteq> JUndefined \<longrightarrow>
            (\<exists>s. JSON_stringify env (opt_get options ''body'') = Some s \<and> body fo = JStr s)
            \<and> opt_get (headers fo) ''Content-Type'' = JStr ''application/json''
            \<and> opt_get (headers fo) ''Accept''
                = (if truthy (opt_get (headers_copy env options) ''Accept'')
                   then opt_get (headers_copy env options) ''Accept''
                   else JStr ''application/json''))
       \<and> (\<not> (truthy (opt_get options ''json'') \<and> opt_get options ''body'' \<noteq> JUndefined)
            \<and> truthy (opt_get options ''form'') \<longrightarrow>
            (\<exists>ps. URLSearchParams_new env (opt_get options ''form'') = Inr ps
                   \<and> body fo = JStr (urlencoded_serialize ps))
            \<and> opt_get (headers fo) ''Content-Type'' = JStr ''application/x-www-form-urlencoded''
            \<and> opt_get (headers fo) ''Accept'' = opt_get (headers_copy env options) ''Accept'')
       \<and> (\<not> (truthy (opt_get options ''json'') \<and> opt_get options ''body'' \<noteq> JUndefined)
            \<and> \<not> truthy (opt_get options ''form'') \<longrightarrow>
            body fo = (if truthy (opt_get options ''body'') then opt_get options ''body'' else JUndefined)
            \<and> opt_get (headers fo) ''Content-Type'' = opt_get (headers_copy env options) ''Content-Type''
            \<and> opt_get (headers fo) ''Accept'' = opt_get (headers_copy env options) ''Accept'')"
proof -
  let ?u = "js_or (opt_get options ''url'') (opt_get options ''uri'')"
  let ?H = "headers_copy env options"
  from assms obtain hs1 where
    j: "jar_step env jar ?u ?H = Inr hs1" and
    b: "body_step env options (auth_step env options hs1) = Inr (body fo, headers fo)"
    by (rule translateOptions_InrD)
  let ?B = "auth_step env options hs1"
  have ct: "opt_get ?B ''Content-Type'' = opt_get ?H ''Content-Type''"
    using j by (rule headers_before_body) simp_all
  have ac: "opt_get ?B ''Accept'' = opt_get ?H ''Accept''"
    using j by (rule headers_before_body) simp_all
  have A: "(\<exists>s. JSON_stringify env (opt_get options ''body'') = Some s \<and> body fo = JStr s)
            \<and> opt_get (headers fo) ''Content-Type'' = JStr ''application/json''
            \<and> opt_get (headers fo) ''Accept''
                = (if truthy (opt_get ?H ''Accept'') then opt_get ?H ''Accept''
                   else JStr ''application/json'')"
    if c: "truthy (opt_get options ''json'')" "opt_get options ''body'' \<noteq> JUndefined"
  proof -
    from c(2) obtain s where s: "JSON_stringify env (opt_get options ''body'') = Some s"
      using JSON_stringify_defined by blast
    from b [symmetric] c s show ?thesis
      by (auto simp: body_step_def Let_def opt_get_set_prop ac split: if_splits)
  qed
  have B: "(\<exists>ps. URLSearchParams_new env (opt_get options ''form'') = Inr ps
                   \<and> body fo = JStr (urlencoded_serialize ps))
            \<and> opt_get (headers fo) ''Content-Type'' = JStr ''application/x-www-form-urlencoded''
            \<and> opt_get (headers fo) ''Accept'' = opt_get ?H ''Accept''"
    if c: "\<not> (truthy (opt_get options ''json'') \<and> opt_get options ''body'' \<noteq> JUndefined)"
      "truthy (opt_get options ''form'')"
    using b [symmetric] c
    by (auto simp: body_step_def Let_def opt_get_set_prop ac split: if_splits sum.splits)
  have C: "body fo = (if truthy (opt_get options ''body'') then opt_get options ''body'' else JUndefined)
            \<and> opt_get (headers fo) ''Content-Type'' = opt_get ?H ''Content-Type''
            \<and> opt_get (headers fo) ''Accept'' = opt_get ?H ''Accept''"
    if c: "\<not> (truthy (opt_get options ''json'') \<and> opt_get options ''body'' \<noteq> JUndefined)"
      "\<not> truthy (opt_get options ''form'')"
    using b [symmetric] c
    by (auto simp: body_step_def Let_def ct ac split: if_splits)
  from A B C show ?thesis by blast
qed

theorem body_precedence_witness:
  "translateOptions example_platform
     [(''url'', JStr ''http://h/''), (''json'', JBool True), (''body'', JObj []),
      (''form'', JObj [(''b'', JStr ''2'')]),
      (''headers'', JObj [(''Content-Type'', JStr ''text/plain'')])] JNull
     = Inr (JStr ''http://h/'',
            \<lparr>http_method = ''GET'',
             headers = [(''Content-Type'', JStr ''application/json''), (''Accept'', JStr ''application/json'')],
             body = JStr ''{}'', signal = None\<rparr>)
   \<and> translateOptions example_platform
     [(''url'', JStr ''http://h/''), (''json'', JBool True),
      (''form'', JObj [(''foo'', JStr ''bar''), (''baz'', JStr ''q x'')]),
      (''headers'', JObj [(''Content-Type'', JStr ''text/plain'')])] JNull
     = Inr (JStr ''http://h/'',
            \<lparr>http_method = ''GET'',
             headers = [(''Content-Type'', JStr ''application/x-www-form-urlencoded'')],
             body = JStr ''foo=bar&baz=q+x'', signal = None\<rparr>)
   \<and> translateOptions example_platform
     [(''url'', JStr ''http://h/''), (''body'', JStr ''raw''),
      (''headers'', JObj [(''Content-Type'', JStr ''text/plain'')])] JNull
     = Inr (JStr ''http://h/'',
            \<lparr>http_method = ''GET'', headers = [(''Content-Type'', JStr ''text/plain'')],
             body = JStr ''raw'', signal = None\<rparr>)"
proof -
  let ?a = "[(''url'', JStr ''http://h/''), (''json'', JBool True), (''body'', JObj []),
      (''form'', JObj [(''b'', JStr ''2'')]),
      (''headers'', JObj [(''Content-Type'', JStr ''text/plain'')])]"
  let ?b = "[(''url'', JStr ''http://h/''), (''json'', JBool True),
      (''form'', JObj [(''foo'', JStr ''bar''), (''baz'', JStr ''q x'')]),
      (''headers'', JObj [(''Content-Type'', JStr ''text/plain'')])]"
  let ?c = "[(''url'', JStr ''http://h/''), (''body'', JStr ''raw''),
      (''headers'', JObj [(''Content-Type'', JStr ''text/plain'')])]"
  let ?fa = "\<lparr>http_method = ''GET'',
             headers = [(''Content-Type'', JStr ''application/json''), (''Accept'', JStr ''application/json'')],
             body = JStr ''{}'', signal = None\<rparr>"
  let ?fb = "\<lparr>http_method = ''GET'',
             headers = [(''Content-Type'', JStr ''application/x-www-form-urlencoded'')],
             body = JStr ''foo=bar&baz=q+x'', signal = None\<rparr>"
  let ?fc = "\<lparr>http_method = ''GET'', headers = [(''Content-Type'', JStr ''text/plain'')],
             body = JStr ''raw'', signal = None\<rparr>"
  have e: "urlencoded_serialize [(''foo'', ''bar''), (''baz'', ''q x'')] = ''foo=bar&baz=q+x''"
    by code_simp
  have a: "translateOptions example_platform ?a JNull = Inr (JStr ''http://h/'', ?fa)"
    by (simp add: translate_defs example_platform_def toUpperCase_def upper_char_def)
  have b: "translateOptions example_platform ?b JNull = Inr (JStr ''http://h/'', ?fb)"
    by (simp add: translate_defs example_platform_def toUpperCase_def upper_char_def e)
  have c: "translateOptions example_platform ?c JNull = Inr (JStr ''http://h/'', ?fc)"
    by (simp add: translate_defs example_platform_def toUpperCase_def upper_char_def)
  have "opt_get (headers ?fa) ''Content-Type'' = JStr ''application/json''"
    using body_precedence [OF a] by (simp add: opt_get_def)
  moreover have "opt_get (headers ?fb) ''Content-Type'' = JStr ''application/x-www-form-urlencoded''"
    using body_precedence [OF b] by (simp add: opt_get_def)
  moreover have "body ?fc = JStr ''raw''"
    using body_precedence [OF c] by (simp add: opt_get_def)
  ultimately show ?thesis using a b c by simp
qed

section \<open>Chained defaults\<close>

lemma assign_append: "assign (assign t a) b = assign t (a @ b)"
  by (simp add: assign_def)





lemma update_fresh: "k \<notin> fst ` set p \<Longrightarrow> AList.update k v p = p @ [(k, v)]"
  by (induction p) auto

lemma assign_distinct: "distinct (map fst (p @ l)) \<Longrightarrow> assign p l = p @ l"
proof (induction l arbitrary: p)
  case Nil
  show ?case by (simp add: assign_def)
next
  case (Cons a l)
  obtain k v where a: "a = (k, v)" by (cases a)
  from Cons.prems have k: "k \<notin> fst ` set p" by (auto simp: a)
  have "assign p (a # l) = assign (p @ [(k, v)]) l"
    by (simp add: assign_def a update_fresh [OF k])
  also have "\<dots> = (p @ [(k, v)]) @ l"
    using Cons.prems by (intro Cons.IH) (simp add: a)
  finally show ?case by (simp add: a)
qed

lemma assign_Nil_distinct: "distinct (map fst l) \<Longrightarrow> assign [] l = l"
  using assign_distinct [of "[]" l] by simp

text \<open>
  For caller headers that are a plain object, \<open>headers_copy\<close> is that object's entry list:
  the copy differs from the original only in being another object.
\<close>

lemma headers_copy_plain:
  assumes "opt_get options ''headers'' = JObj hs" and "distinct_keys hs"
  shows "headers_copy env options = hs"
  using assms by (simp add: headers_copy_def js_or_def distinct_keys_def assign_Nil_distinct)







lemma spread2_conv: "spread2 a b = assign [] (a @ b)"
  by (simp add: spread2_def assign_append)






















section \<open>What a call writes to\<close>

lemma preserves_refl: "preserves st st"
  by (simp add: preserves_def)

lemma preserves_trans: "preserves st2 st1 \<Longrightarrow> preserves st1 st0 \<Longrightarrow> preserves st2 st0"
proof -
  assume a: "preserves st2 st1" "preserves st1 st0"
  then have l: "length st0 \<le> length st1" "length st1 \<le> length st2"
    by (simp_all add: preserves_def)
  have "take (length st0) st2 = take (length st0) (take (length st1) st2)"
    using l by (simp add: min_def)
  also have "\<dots> = st0" using a by (simp add: preserves_def)
  finally show ?thesis using l by (simp add: preserves_def)
qed

lemma preserves_length: "preserves st' st \<Longrightarrow> length st \<le> length st'"
  by (simp add: preserves_def)

lemma preserves_alloc: "preserves st st0 \<Longrightarrow> preserves (snd (alloc st es)) st0"
  by (auto simp: preserves_def alloc_def)

lemma fst_alloc: "fst (alloc st es) = length st"
  by (simp add: alloc_def)

lemma length_alloc: "length (snd (alloc st es)) = Suc (length st)"
  by (simp add: alloc_def)

lemma length_write_prop: "length (write_prop st a k v) = length st"
  by (simp add: write_prop_def)

lemma preserves_write_prop:
  "preserves st st0 \<Longrightarrow> length st0 \<le> a \<Longrightarrow> preserves (write_prop st a k v) st0"
  by (auto simp: preserves_def write_prop_def)

lemma h_get_write_prop_other:
  "k \<noteq> k' \<Longrightarrow> h_get (write_prop st a k v) (HRef b) k' = h_get st (HRef b) k'"
  by (auto simp: h_get_def write_prop_def update_conv' nth_list_update)

lemma h_get_alloc_old:
  "b < length st \<Longrightarrow> h_get (snd (alloc st es)) (HRef b) k = h_get st (HRef b) k"
  by (simp add: h_get_def alloc_def nth_append)

lemma fresh_headers_write_prop:
  "fresh_headers st0 st fo \<Longrightarrow> length st0 \<le> a \<Longrightarrow> k \<noteq> ''headers'' \<Longrightarrow>
   fresh_headers st0 (write_prop st a k v) fo"
  by (auto simp: fresh_headers_def preserves_write_prop length_write_prop h_get_write_prop_other)

lemma fresh_headers_write_headers:
  "fresh_headers st0 st fo \<Longrightarrow> k \<noteq> ''headers'' \<Longrightarrow>
   fresh_headers st0 (write_headers st fo k v) fo"
proof -
  assume f: "fresh_headers st0 st fo" and k: "k \<noteq> ''headers''"
  then obtain hs where hs: "h_get st (HRef fo) ''headers'' = HRef hs" "length st0 \<le> hs"
    by (auto simp: fresh_headers_def)
  have "write_headers st fo k v = write_prop st hs k v"
    by (simp add: write_headers_def hs)
  with fresh_headers_write_prop [OF f hs(2) k] show ?thesis by simp
qed

lemma fresh_headers_alloc:
  "fresh_headers st0 st fo \<Longrightarrow> fresh_headers st0 (snd (alloc st es)) fo"
  by (auto simp: fresh_headers_def preserves_alloc length_alloc h_get_alloc_old)


lemma h_get_alloc_new:
  "h_get (snd (alloc st es)) (HRef (length st)) k
     = (case map_of es k of None \<Rightarrow> HUndefined | Some x \<Rightarrow> x)"
  by (simp add: h_get_def alloc_def)

lemma fresh_headers_preserves: "fresh_headers st0 st fo \<Longrightarrow> preserves st st0"
  by (simp add: fresh_headers_def)

lemma fresh_headers_start:
  assumes "preserves st st0" and "start_st st options m = (fo, st')"
  shows "fresh_headers st0 st' fo"
proof -
  obtain st1 where 1: "alloc st [] = (length st, st1)"
    by (simp add: alloc_def)
  let ?H = "assign [] (h_entries st1 (h_or (h_get st1 (HRef options) ''headers'') (HRef (length st))))"
  obtain st2 where 2: "alloc st1 ?H = (length st1, st2)"
    by (simp add: alloc_def)
  let ?F = "[(''method'', HStr (toUpperCase m)), (''headers'', HRef (length st1))]"
  obtain st3 where 3: "alloc st2 ?F = (length st2, st3)"
    by (simp add: alloc_def)
  have p1: "preserves st1 st0"
    using preserves_alloc [OF assms(1), of "[]"] 1 by simp
  have p2: "preserves st2 st0"
    using preserves_alloc [OF p1, of ?H] 2 by simp
  have p3: "preserves st3 st0"
    using preserves_alloc [OF p2, of ?F] 3 by simp
  have l: "length st0 \<le> length st1" "length st0 \<le> length st2" "length st3 = Suc (length st2)"
    using preserves_length [OF p1] preserves_length [OF p2] length_alloc [of st2 ?F] 3 by simp_all
  have g: "h_get st3 (HRef (length st2)) ''headers'' = HRef (length st1)"
    using h_get_alloc_new [of st2 ?F "''headers''"] 3 by simp
  have f3: "fresh_headers st0 st3 (length st2)"
    unfolding fresh_headers_def using p3 l g by simp
  show ?thesis
  proof (cases "h_truthy (h_get st3 (HRef options) ''timeout'')")
    case False
    with assms(2) 1 2 3 have "fo = length st2" "st' = st3"
      by (simp_all add: start_st_def)
    with f3 show ?thesis by simp
  next
    case True
    obtain st4 where 4: "alloc st3 [] = (length st3, st4)"
      by (simp add: alloc_def)
    from True assms(2) 1 2 3 4 have r: "fo = length st2"
      "st' = write_prop st4 (length st2) ''signal'' (HRef (length st3))"
      by (auto simp: start_st_def)
    have "fresh_headers st0 st4 (length st2)"
      using fresh_headers_alloc [OF f3, of "[]"] 4 by simp
    then show ?thesis
      unfolding r using l by (intro fresh_headers_write_prop) simp_all
  qed
qed

lemma fresh_headers_auth:
  "fresh_headers st0 st fo \<Longrightarrow> fresh_headers st0 (auth_st P st options fo) fo"
  by (simp add: auth_st_def Let_def fresh_headers_write_headers)

lemma fresh_headers_fo: "fresh_headers st0 st fo \<Longrightarrow> length st0 \<le> fo"
  by (simp add: fresh_headers_def)

lemma fresh_headers_body:
  assumes "fresh_headers st0 st fo"
  shows "fresh_headers st0 (fst (body_st P st options fo)) fo"
proof -
  note w = fresh_headers_write_prop [OF _ fresh_headers_fo]
  show ?thesis
    using assms
    by (auto simp: body_st_def Let_def split: sum.splits
        intro!: fresh_headers_write_headers fresh_headers_write_prop fresh_headers_fo)
qed

lemma fresh_headers_finish:
  assumes "fresh_headers st0 st fo" and "finish_st P st options fo u = (st', r)"
  shows "preserves st' st0" and "r = Inr res \<Longrightarrow> fresh_headers st0 st' res"
proof -
  let ?qs = "h_get st (HRef options) ''qs''"
  let ?c = "if h_truthy ?qs then map_sum id HStr (st_with_qs P st u ?qs) else Inr u"
  from assms(1) have p: "preserves st st0" and fo: "length st0 \<le> fo" "fo < length st"
    and hs: "\<exists>hs. h_get st (HRef fo) ''headers'' = HRef hs \<and> length st0 \<le> hs"
    by (auto simp: fresh_headers_def)
  show "preserves st' st0"
    using assms(2) p
    by (auto simp: finish_st_def Let_def alloc_def preserves_def split: sum.splits prod.splits)
  show "fresh_headers st0 st' res" if r: "r = Inr res"
  proof -
    from assms(2) r obtain u' where c: "?c = Inr u'"
      and a: "alloc st ((''url'', u') # h_entries st (HRef fo)) = (res, st')"
      by (auto simp: finish_st_def Let_def split: sum.splits prod.splits)
    from a have res: "res = length st" and st': "st' = snd (alloc st ((''url'', u') # h_entries st (HRef fo)))"
      by (auto simp: alloc_def)
    have "h_get st' (HRef res) ''headers'' = h_get st (HRef fo) ''headers''"
      unfolding res st' h_get_alloc_new by (simp add: h_get_def)
    with hs p fo show ?thesis
      unfolding fresh_headers_def res st'
      using preserves_alloc [OF p] preserves_length [OF p] by (simp add: length_alloc)
  qed
qed

lemma translateOptions_st_frame:
  assumes "preserves st st0" and "translateOptions_st P st options = (st', r)"
  shows "preserves st' st0" and "r = Inr res \<Longrightarrow> fresh_headers st0 st' res"
proof -
  have "preserves st' st0 \<and> (r = Inr res \<longrightarrow> fresh_headers st0 st' res)"
  proof (cases "h_or (h_get st (HRef options) ''method'') (HStr ''GET'')")
    case (HStr m)
    obtain fo st1 where s: "start_st st options m = (fo, st1)" by (cases "start_st st options m")
    have f1: "fresh_headers st0 st1 fo" using assms(1) s by (rule fresh_headers_start)
    let ?u = "h_or (h_get st1 (HRef options) ''url'') (h_get st1 (HRef options) ''uri'')"
    show ?thesis
    proof (cases "h_truthy ?u")
      case False
      with assms(2) HStr s have "st' = st1" "r = Inl (Error ''URL is required.'')"
        by (simp_all add: translateOptions_st_def)
      with f1 show ?thesis by (simp add: fresh_headers_def)
    next
      case True
      let ?st2 = "auth_st P st1 options fo"
      obtain st3 e where b: "body_st P ?st2 options fo = (st3, e)" by (cases "body_st P ?st2 options fo")
      have "fresh_headers st0 (fst (body_st P ?st2 options fo)) fo"
        by (intro fresh_headers_body fresh_headers_auth f1)
      with b have f3: "fresh_headers st0 st3 fo" by simp
      show ?thesis
      proof (cases e)
        case (Some err)
        with assms(2) HStr s True b have "st' = st3" "r = Inl err"
          by (simp_all add: translateOptions_st_def)
        with f3 show ?thesis by (simp add: fresh_headers_def)
      next
        case None
        with assms(2) HStr s True b have "finish_st P st3 options fo ?u = (st', r)"
          by (simp add: translateOptions_st_def)
        from fresh_headers_finish [OF f3 this] show ?thesis by simp
      qed
    qed
  qed (use assms in \<open>auto simp: translateOptions_st_def\<close>)
  then show "preserves st' st0" and "r = Inr res \<Longrightarrow> fresh_headers st0 st' res"
    by simp_all
qed


lemma map_of_filter_key:
  "map_of (filter (\<lambda>(k, v). k \<noteq> k') es) k = (if k = k' then None else map_of es k)"
  by (induction es) auto

lemma dispatch_st_frame:
  assumes "preserves st st0" and "dispatch_st P st options = (st', r)"
  shows "preserves st' st0" and "r = Inr (u, rest) \<Longrightarrow> fresh_headers st0 st' rest"
proof -
  obtain st1 r1 where t: "translateOptions_st P st options = (st1, r1)"
    by (cases "translateOptions_st P st options")
  note f = translateOptions_st_frame [OF assms(1) t]
  have "preserves st' st0 \<and> (r = Inr (u, rest) \<longrightarrow> fresh_headers st0 st' rest)"
  proof (cases r1)
    case (Inl e)
    with assms(2) t f(1) show ?thesis by (auto simp: dispatch_st_def)
  next
    case (Inr res)
    let ?es = "filter (\<lambda>(k, v). k \<noteq> ''url'') (h_entries st1 (HRef res))"
    from assms(2) t Inr have st': "st' = snd (alloc st1 ?es)"
      and r: "r = Inr (h_get st' (HRef res) ''url'', length st1)"
      by (auto simp: dispatch_st_def alloc_def)
    from f(2) [OF Inr] obtain hs where hs: "h_get st1 (HRef res) ''headers'' = HRef hs" "length st0 \<le> hs"
      by (auto simp: fresh_headers_def)
    have "h_get st' (HRef (length st1)) ''headers'' = h_get st1 (HRef res) ''headers''"
      unfolding st' h_get_alloc_new by (simp add: map_of_filter_key h_get_def)
    with hs f(1) r show ?thesis
      unfolding fresh_headers_def st'
      using preserves_alloc [OF f(1)] preserves_length [OF f(1)] by (auto simp: length_alloc)
  qed
  then show "preserves st' st0" and "r = Inr (u, rest) \<Longrightarrow> fresh_headers st0 st' rest"
    by simp_all
qed

lemma gather_opts_st_frame:
  assumes "preserves st st0" and "gather_opts_st st uri options = (opts, st')"
  shows "preserves st' st0 \<and> length st0 \<le> opts \<and> opts < length st'"
proof -
  obtain st1 where 1: "alloc st [] = (length st, st1)" by (simp add: alloc_def)
  have p1: "preserves st1 st0" using preserves_alloc [OF assms(1), of "[]"] 1 by simp
  have l1: "length st1 = Suc (length st)" using length_alloc [of st "[]"] 1 by simp
  let ?s2 = "case uri of
               HRef a \<Rightarrow> alloc st1 (assign [] (h_entries st1 uri))
             | HStr s \<Rightarrow> (length st, write_prop st1 (length st) ''url'' uri)
             | _ \<Rightarrow> (length st, st1)"
  obtain o2 st2 where 2: "?s2 = (o2, st2)" by (cases ?s2)
  have l0: "length st0 \<le> length st" using assms(1) by (rule preserves_length)
  have p2: "preserves st2 st0 \<and> length st0 \<le> o2 \<and> o2 < length st2"
    using 2 p1 l1 l0 preserves_length [OF p1]
    by (cases uri)
       (auto simp: alloc_def preserves_write_prop length_write_prop intro: preserves_alloc [unfolded alloc_def, simplified])
  let ?s3 = "case options of
               HFun f \<Rightarrow> (o2, st2)
             | HRef a \<Rightarrow> alloc st2 (spread2 (h_entries st2 (HRef o2)) (h_entries st2 options))
             | _ \<Rightarrow> (o2, st2)"
  have g: "gather_opts_st st uri options = ?s3"
    using 1 2 by (simp add: gather_opts_st_def)
  with assms(2) have 3: "?s3 = (opts, st')" by simp
  from p2 have p2': "preserves st2 st0" by simp
  show ?thesis
    using 3 p2 preserves_length [OF p2']
    by (cases options)
       (auto simp: alloc_def intro: preserves_alloc [unfolded alloc_def, simplified])
qed

lemma mainRequest_st_frame:
  assumes "preserves st st0" and "mainRequest_st P st d uri options callback = (st', fin, r)"
  shows "preserves st' st0" and "r = Inr (u, rest) \<Longrightarrow> fresh_headers st0 st' rest"
proof -
  obtain opts st1 where g: "gather_opts_st st uri options = (opts, st1)"
    by (cases "gather_opts_st st uri options")
  from gather_opts_st_frame [OF assms(1) g] have p1: "preserves st1 st0" by simp
  let ?F = "spread2 (h_entries st1 (HRef d)) (h_entries st1 (HRef opts))"
  obtain st2 where 2: "alloc st1 ?F = (length st1, st2)" by (simp add: alloc_def)
  have p2: "preserves st2 st0" using preserves_alloc [OF p1, of ?F] 2 by simp
  let ?T = "[(''_options'', HRef (length st1)), (''_isPiped'', HBool False)]"
  obtain st3 where 3: "alloc st2 ?T = (length st2, st3)" by (simp add: alloc_def)
  have p3: "preserves st3 st0" using preserves_alloc [OF p2, of ?T] 3 by simp
  have "(\<exists>sa. preserves sa st0 \<and> dispatch_st P sa (length st1) = (st', r))"
    using assms(2) g 2 3 p2 p3
    by (cases "pick_callback_st options callback")
       (auto simp: mainRequest_st_def split: prod.splits)
  then obtain sa where sa: "preserves sa st0" "dispatch_st P sa (length st1) = (st', r)"
    by blast
  from dispatch_st_frame [OF sa]
  show "preserves st' st0" and "r = Inr (u, rest) \<Longrightarrow> fresh_headers st0 st' rest"
    by simp_all
qed

lemma verb_st_frame:
  assumes "verb_st P st d m uri options callback = (st', fin, r)"
  shows "preserves st' st" and "r = Inr (u, rest) \<Longrightarrow> fresh_headers st st' rest"
proof -
  obtain opts st1 where g: "gather_opts_st st uri options = (opts, st1)"
    by (cases "gather_opts_st st uri options")
  from gather_opts_st_frame [OF preserves_refl g]
  have p1: "preserves st1 st" and o: "length st \<le> opts" by simp_all
  let ?st2 = "write_prop st1 opts ''method'' (HStr (toUpperCase m))"
  have p2: "preserves ?st2 st" using p1 o by (rule preserves_write_prop)
  from assms g have
    "mainRequest_st P ?st2 d (HRef opts) (pick_callback_st options callback) HUndefined = (st', fin, r)"
    by (simp add: verb_st_def)
  from mainRequest_st_frame [OF p2 this]
  show "preserves st' st" and "r = Inr (u, rest) \<Longrightarrow> fresh_headers st st' rest"
    by simp_all
qed

text \<open>
  The headers object of \<open>fetchOptions\<close> starts as a copy: a new object holding the
  entries of the caller's headers object.
\<close>

lemma start_st_headers_are_a_copy:
  assumes "start_st st options m = (fo, st')"
    and "options < length st"
    and "h_get st (HRef options) ''headers'' = HRef a" and "a < length st"
  shows "\<exists>hs. h_get st' (HRef fo) ''headers'' = HRef hs \<and> length st \<le> hs
              \<and> h_entries st' (HRef hs) = assign [] (st ! a)"
proof -
  obtain st1 where 1: "alloc st [] = (length st, st1)" and s1: "st1 = st @ [[]]"
    by (simp add: alloc_def)
  let ?H = "assign [] (h_entries st1 (h_or (h_get st1 (HRef options) ''headers'') (HRef (length st))))"
  obtain st2 where 2: "alloc st1 ?H = (length st1, st2)" and s2: "st2 = st1 @ [?H]"
    by (simp add: alloc_def)
  let ?F = "[(''method'', HStr (toUpperCase m)), (''headers'', HRef (length st1))]"
  obtain st3 where 3: "alloc st2 ?F = (length st2, st3)" and s3: "st3 = st2 @ [?F]"
    by (simp add: alloc_def)
  obtain st4 where 4: "alloc st3 [] = (length st3, st4)" and s4: "st4 = st3 @ [[]]"
    by (simp add: alloc_def)
  have H: "?H = assign [] (st ! a)"
    using assms(2,3,4) by (simp add: s1 h_get_def h_or_def nth_append)
  have l: "length st1 = Suc (length st)" "length st2 = Suc (Suc (length st))"
    "length st3 = Suc (Suc (Suc (length st)))"
    by (simp_all add: s1 s2 s3)
  have g3: "h_get st3 (HRef (length st2)) ''headers'' = HRef (length st1)"
    "h_entries st3 (HRef (length st1)) = ?H"
    by (simp_all add: s3 s2 l h_get_def nth_append)
  have g4: "h_get (write_prop st4 (length st2) ''signal'' v) (HRef (length st2)) ''headers'' = HRef (length st1)"
    "h_entries (write_prop st4 (length st2) ''signal'' v) (HRef (length st1)) = ?H" for v
    by (simp_all add: s4 s3 s2 l h_get_def write_prop_def nth_append nth_list_update update_conv')
  show ?thesis
  proof (cases "h_truthy (h_get st3 (HRef options) ''timeout'')")
    case False
    with assms(1) 1 2 3 have "fo = length st2" "st' = st3"
      by (auto simp: start_st_def)
    with g3 l show ?thesis by (simp add: H)
  next
    case True
    with assms(1) 1 2 3 4 have "fo = length st2"
      "st' = write_prop st4 (length st2) ''signal'' (HRef (length st3))"
      by (auto simp: start_st_def)
    with g4 l show ?thesis by (simp add: H)
  qed
qed

text \<open>
  C10: a call of the main entry point or of a verb shortcut leaves every object that
  existed before the call as it was, in particular the caller's uri and options objects,
  the objects they refer to, and the instance's defaultOptions: the store after the call
  is the store before it followed by new objects. And when the call reaches the
  transport, the headers property of the object handed over refers to an object created
  during the call, not to the caller's headers object.
\<close>

theorem caller_objects_are_not_mutated:
  "preserves (fst (mainRequest_st P st d uri options callback)) st
   \<and> preserves (fst (verb_st P st d m uri options callback)) st
   \<and> (\<forall>u rest. snd (snd (mainRequest_st P st d uri options callback)) = Inr (u, rest) \<longrightarrow>
         (\<exists>hs. h_get (fst (mainRequest_st P st d uri options callback)) (HRef rest) ''headers'' = HRef hs
               \<and> length st \<le> hs))
   \<and> (\<forall>u rest. snd (snd (verb_st P st d m uri options callback)) = Inr (u, rest) \<longrightarrow>
         (\<exists>hs. h_get (fst (verb_st P st d m uri options callback)) (HRef rest) ''headers'' = HRef hs
               \<and> length st \<le> hs))"
proof -
  obtain st1 fin1 r1 where 1: "mainRequest_st P st d uri options callback = (st1, fin1, r1)"
    by (cases "mainRequest_st P st d uri options callback")
  obtain st2 fin2 r2 where 2: "verb_st P st d m uri options callback = (st2, fin2, r2)"
    by (cases "verb_st P st d m uri options callback")
  note a = mainRequest_st_frame [OF preserves_refl 1]
  note b = verb_st_frame [OF 2]
  have "\<exists>hs. h_get st1 (HRef rest) ''headers'' = HRef hs \<and> length st \<le> hs"
    if "r1 = Inr (u, rest)" for u rest
    using a(2) [OF that] by (simp add: fresh_headers_def)
  moreover have "\<exists>hs. h_get st2 (HRef rest) ''headers'' = HRef hs \<and> length st \<le> hs"
    if "r2 = Inr (u, rest)" for u rest
    using b(2) [OF that] by (simp add: fresh_headers_def)
  ultimately show ?thesis
    using a(1) b(1) by (simp add: 1 2)
qed

theorem caller_objects_are_not_mutated_witness:
  "mainRequest_st example_store_platform
     [[], [(''url'', HStr ''http://h/''), (''headers'', HRef 2), (''json'', HBool True), (''body'', HRef 3)],
      [(''X-A'', HStr ''1'')], [(''k'', HNum 1)]] 0 (HRef 1) (HFun 0) HUndefined
   = ([[], [(''url'', HStr ''http://h/''), (''headers'', HRef 2), (''json'', HBool True), (''body'', HRef 3)],
       [(''X-A'', HStr ''1'')], [(''k'', HNum 1)],
       [],
       [(''url'', HStr ''http://h/''), (''headers'', HRef 2), (''json'', HBool True), (''body'', HRef 3)],
       [(''url'', HStr ''http://h/''), (''headers'', HRef 2), (''json'', HBool True), (''body'', HRef 3)],
       [],
       [(''X-A'', HStr ''1''), (''Content-Type'', HStr ''application/json''), (''Accept'', HStr ''application/json'')],
       [(''method'', HStr ''GET''), (''headers'', HRef 8), (''body'', HStr ''{}'')],
       [(''url'', HStr ''http://h/''), (''method'', HStr ''GET''), (''headers'', HRef 8), (''body'', HStr ''{}'')],
       [(''method'', HStr ''GET''), (''headers'', HRef 8), (''body'', HStr ''{}'')]],
      6, Inr (HStr ''http://h/'', 11))
   \<and> preserves (fst (mainRequest_st example_store_platform
     [[], [(''url'', HStr ''http://h/''), (''headers'', HRef 2), (''json'', HBool True), (''body'', HRef 3)],
      [(''X-A'', HStr ''1'')], [(''k'', HNum 1)]] 0 (HRef 1) (HFun 0) HUndefined))
     [[], [(''url'', HStr ''http://h/''), (''headers'', HRef 2), (''json'', HBool True), (''body'', HRef 3)],
      [(''X-A'', HStr ''1'')], [(''k'', HNum 1)]]
   \<and> (\<exists>hs. h_get (fst (mainRequest_st example_store_platform
     [[], [(''url'', HStr ''http://h/''), (''headers'', HRef 2), (''json'', HBool True), (''body'', HRef 3)],
      [(''X-A'', HStr ''1'')], [(''k'', HNum 1)]] 0 (HRef 1) (HFun 0) HUndefined)) (HRef 11) ''headers'' = HRef hs
         \<and> 4 \<le> hs)"
proof -
  let ?S = "[[], [(''url'', HStr ''http://h/''), (''headers'', HRef 2), (''json'', HBool True), (''body'', HRef 3)],
      [(''X-A'', HStr ''1'')], [(''k'', HNum 1)]]"
  let ?S' = "[[], [(''url'', HStr ''http://h/''), (''headers'', HRef 2), (''json'', HBool True), (''body'', HRef 3)],
       [(''X-A'', HStr ''1'')], [(''k'', HNum 1)],
       [],
       [(''url'', HStr ''http://h/''), (''headers'', HRef 2), (''json'', HBool True), (''body'', HRef 3)],
       [(''url'', HStr ''http://h/''), (''headers'', HRef 2), (''json'', HBool True), (''body'', HRef 3)],
       [],
       [(''X-A'', HStr ''1''), (''Content-Type'', HStr ''application/json''), (''Accept'', HStr ''application/json'')],
       [(''method'', HStr ''GET''), (''headers'', HRef 8), (''body'', HStr ''{}'')],
       [(''url'', HStr ''http://h/''), (''method'', HStr ''GET''), (''headers'', HRef 8), (''body'', HStr ''{}'')],
       [(''method'', HStr ''GET''), (''headers'', HRef 8), (''body'', HStr ''{}'')]]"
  have e: "mainRequest_st example_store_platform ?S 0 (HRef 1) (HFun 0) HUndefined
             = (?S', 6, Inr (HStr ''http://h/'', 11))"
    by code_simp
  have s: "snd (snd (mainRequest_st example_store_platform ?S 0 (HRef 1) (HFun 0) HUndefined))
             = Inr (HStr ''http://h/'', 11)"
    unfolding e by simp
  note T = caller_objects_are_not_mutated
         [of example_store_platform ?S 0 "HRef 1" "HFun 0" HUndefined "''get''"]
  from T have p: "preserves (fst (mainRequest_st example_store_platform ?S 0 (HRef 1) (HFun 0) HUndefined)) ?S"
    by blast
  from T s obtain hs where
    h: "h_get (fst (mainRequest_st example_store_platform ?S 0 (HRef 1) (HFun 0) HUndefined))
          (HRef 11) ''headers'' = HRef hs" "length ?S \<le> hs"
    by blast
  from h(2) have "4 \<le> hs" by simp
  with h(1) have x: "\<exists>hs. h_get (fst (mainRequest_st example_store_platform ?S 0 (HRef 1) (HFun 0) HUndefined))
          (HRef 11) ''headers'' = HRef hs \<and> 4 \<le> hs"
    by blast
  from e p x show ?thesis by (intro conjI)
qed

end
